theory Spec2Isabelle
  imports Complex_Main "HOL-Library.AList" "HOL-Library.Product_Lexorder"
begin

section \<open>Python values used by the services\<close>

text \<open>
  Exceptions are values. The constructors are the exception classes of
  \<^verbatim>\<open>app/core/exceptions.py\<close> together with the built-in ones the code can meet;
  each carries the message that \<^verbatim>\<open>str(e)\<close> yields.
\<close>

datatype error =
    SearchError string
  | DocumentProcessingError string
  | FileValidationError string
  | ValueError string
  | Exception string

fun str_of_error :: "error \<Rightarrow> string" where
  "str_of_error (SearchError m) = m"
| "str_of_error (DocumentProcessingError m) = m"
| "str_of_error (FileValidationError m) = m"
| "str_of_error (ValueError m) = m"
| "str_of_error (Exception m) = m"

text \<open>
  Text is a list of characters; a \<^typ>\<open>char\<close> is a code point below 256, so the model
  covers Latin-1 text. \<open>is_space\<close> is \<^verbatim>\<open>str.isspace\<close> on that range, the set that
  \<^verbatim>\<open>str.strip()\<close> and \<^verbatim>\<open>str.split()\<close> remove.
\<close>

definition is_space :: "char \<Rightarrow> bool" where
  "is_space c \<longleftrightarrow> c \<in> set [CHR 0x09, CHR 0x0A, CHR 0x0B, CHR 0x0C, CHR 0x0D,
     CHR 0x1C, CHR 0x1D, CHR 0x1E, CHR 0x1F, CHR 0x20, CHR 0x85, CHR 0xA0]"

definition py_strip :: "string \<Rightarrow> string" where
  "py_strip s = rev (dropWhile is_space (rev (dropWhile is_space s)))"

text \<open>\<^verbatim>\<open>s.split()\<close>: the maximal runs of non-whitespace characters.\<close>

fun split_ws :: "string \<Rightarrow> string \<Rightarrow> string list" where
  "split_ws w [] = (if w = [] then [] else [w])"
| "split_ws w (c # cs) =
     (if is_space c then (if w = [] then [] else [w]) @ split_ws [] cs
      else split_ws (w @ [c]) cs)"

definition py_split :: "string \<Rightarrow> string list" where
  "py_split s = split_ws [] s"

text \<open>\<^verbatim>\<open>s.split(sep)\<close> for a one-character separator: never an empty list.\<close>

fun split_on :: "char \<Rightarrow> string \<Rightarrow> string \<Rightarrow> string list" where
  "split_on sep w [] = [w]"
| "split_on sep w (c # cs) =
     (if c = sep then w # split_on sep [] cs else split_on sep (w @ [c]) cs)"

definition py_split_sep :: "char \<Rightarrow> string \<Rightarrow> string list" where
  "py_split_sep sep s = split_on sep [] s"

definition py_startswith :: "string \<Rightarrow> string \<Rightarrow> bool" where
  "py_startswith p s \<longleftrightarrow> take (length p) s = p"

text \<open>
  \<^verbatim>\<open>str.lower()\<close> on Latin-1: A-Z and the accented capitals 0xC0-0xDE (without the
  multiplication sign 0xD7) move up by 32.
\<close>

definition upper_chars :: "char list" where
  "upper_chars = ''ABCDEFGHIJKLMNOPQRSTUVWXYZ'' @
     [CHR 0xC0, CHR 0xC1, CHR 0xC2, CHR 0xC3, CHR 0xC4, CHR 0xC5, CHR 0xC6, CHR 0xC7,
      CHR 0xC8, CHR 0xC9, CHR 0xCA, CHR 0xCB, CHR 0xCC, CHR 0xCD, CHR 0xCE, CHR 0xCF,
      CHR 0xD0, CHR 0xD1, CHR 0xD2, CHR 0xD3, CHR 0xD4, CHR 0xD5, CHR 0xD6,
      CHR 0xD8, CHR 0xD9, CHR 0xDA, CHR 0xDB, CHR 0xDC, CHR 0xDD, CHR 0xDE]"

definition lower_chars :: "char list" where
  "lower_chars = ''abcdefghijklmnopqrstuvwxyz'' @
     [CHR 0xE0, CHR 0xE1, CHR 0xE2, CHR 0xE3, CHR 0xE4, CHR 0xE5, CHR 0xE6, CHR 0xE7,
      CHR 0xE8, CHR 0xE9, CHR 0xEA, CHR 0xEB, CHR 0xEC, CHR 0xED, CHR 0xEE, CHR 0xEF,
      CHR 0xF0, CHR 0xF1, CHR 0xF2, CHR 0xF3, CHR 0xF4, CHR 0xF5, CHR 0xF6,
      CHR 0xF8, CHR 0xF9, CHR 0xFA, CHR 0xFB, CHR 0xFC, CHR 0xFD, CHR 0xFE]"

definition lower_char :: "char \<Rightarrow> char" where
  "lower_char c = (case map_of (zip upper_chars lower_chars) c of Some l \<Rightarrow> l | None \<Rightarrow> c)"

definition py_lower :: "string \<Rightarrow> string" where
  "py_lower s = map lower_char s"

text \<open>
  \<^verbatim>\<open>int(tok)\<close> for a token without whitespace: an optional sign, then decimal digits
  with single underscores allowed between digits. \<open>None\<close> is the \<^verbatim>\<open>ValueError\<close>.
\<close>

definition digit_val :: "char \<Rightarrow> nat option" where
  "digit_val c = map_of (zip ''0123456789'' [0, 1, 2, 3, 4, 5, 6, 7, 8, 9]) c"

fun parse_digits :: "nat \<Rightarrow> string \<Rightarrow> nat option" where
  "parse_digits acc [] = Some acc"
| "parse_digits acc [c] =
     (case digit_val c of Some d \<Rightarrow> Some (10 * acc + d) | None \<Rightarrow> None)"
| "parse_digits acc (c # c' # cs) =
     (case digit_val c of
        Some d \<Rightarrow> parse_digits (10 * acc + d) (c' # cs)
      | None \<Rightarrow>
          (if c = CHR ''_'' then
             (case digit_val c' of
                Some d \<Rightarrow> parse_digits (10 * acc + d) cs
              | None \<Rightarrow> None)
           else None))"

definition parse_nat :: "string \<Rightarrow> nat option" where
  "parse_nat s =
     (case s of
        [] \<Rightarrow> None
      | c # cs \<Rightarrow> (case digit_val c of Some d \<Rightarrow> parse_digits d cs | None \<Rightarrow> None))"

definition py_int :: "string \<Rightarrow> int option" where
  "py_int s =
     (case s of
        [] \<Rightarrow> None
      | c # cs \<Rightarrow>
          (if c = CHR ''-'' then map_option (\<lambda>n. - int n) (parse_nat cs)
           else if c = CHR ''+'' then map_option int (parse_nat cs)
           else map_option int (parse_nat s)))"

text \<open>\<^verbatim>\<open>str(n)\<close> for a non-negative integer, and for any integer.\<close>

fun str_nat :: "nat \<Rightarrow> string" where
  "str_nat n =
     (if n < 10 then [''0123456789'' ! n]
      else str_nat (n div 10) @ [''0123456789'' ! (n mod 10)])"


text \<open>
  \<^verbatim>\<open>xs[:n]\<close> and \<^verbatim>\<open>xs[i:j]\<close> with Python's treatment of negative and oversized
  bounds.
\<close>

definition slice_bound :: "nat \<Rightarrow> int \<Rightarrow> nat" where
  "slice_bound n i = (if i < 0 then nat (int n + i) else min (nat i) n)"

definition py_slice :: "int \<Rightarrow> int \<Rightarrow> 'a list \<Rightarrow> 'a list" where
  "py_slice i j xs =
     (let n = length xs; lo = slice_bound n i; hi = slice_bound n j
      in drop lo (take hi xs))"

definition py_take :: "int \<Rightarrow> 'a list \<Rightarrow> 'a list" where
  "py_take j xs = take (slice_bound (length xs) j) xs"

section \<open>Floating-point values\<close>

text \<open>
  A Python \<^verbatim>\<open>float\<close> (a numpy \<^verbatim>\<open>float64\<close>) is a finite value, an infinity or NaN; the
  two zeros compare equal and are one value here. Comparisons are exact and follow
  IEEE 754: every comparison with NaN is false.
\<close>

datatype pyfloat = Finite real | PosInf | NegInf | NaN

text \<open>\<^verbatim>\<open>x == 0\<close>.\<close>

definition is_zero :: "pyfloat \<Rightarrow> bool" where
  "is_zero x \<longleftrightarrow> x = Finite 0"

text \<open>\<^verbatim>\<open>a >= b\<close>.\<close>

fun fge :: "pyfloat \<Rightarrow> pyfloat \<Rightarrow> bool" where
  "fge NaN b = False"
| "fge a NaN = False"
| "fge PosInf b = True"
| "fge a NegInf = True"
| "fge (Finite a) (Finite b) = (a \<ge> b)"
| "fge (Finite a) PosInf = False"
| "fge NegInf b = False"

text \<open>
  The arithmetic of two scalars. The special values follow IEEE 754; a finite non-zero
  exact result is handed to \<open>rnd\<close>, the rounding to binary64, which may also overflow to
  an infinity or underflow to zero. A product or quotient that is exactly zero is zero.
\<close>

fun fmul :: "(real \<Rightarrow> pyfloat) \<Rightarrow> pyfloat \<Rightarrow> pyfloat \<Rightarrow> pyfloat" where
  "fmul rnd NaN b = NaN"
| "fmul rnd a NaN = NaN"
| "fmul rnd (Finite a) (Finite b) = (if a * b = 0 then Finite 0 else rnd (a * b))"
| "fmul rnd (Finite a) PosInf = (if a = 0 then NaN else if a > 0 then PosInf else NegInf)"
| "fmul rnd (Finite a) NegInf = (if a = 0 then NaN else if a > 0 then NegInf else PosInf)"
| "fmul rnd PosInf (Finite b) = (if b = 0 then NaN else if b > 0 then PosInf else NegInf)"
| "fmul rnd NegInf (Finite b) = (if b = 0 then NaN else if b > 0 then NegInf else PosInf)"
| "fmul rnd PosInf PosInf = PosInf"
| "fmul rnd PosInf NegInf = NegInf"
| "fmul rnd NegInf PosInf = NegInf"
| "fmul rnd NegInf NegInf = PosInf"

fun fdiv :: "(real \<Rightarrow> pyfloat) \<Rightarrow> pyfloat \<Rightarrow> pyfloat \<Rightarrow> pyfloat" where
  "fdiv rnd NaN b = NaN"
| "fdiv rnd a NaN = NaN"
| "fdiv rnd (Finite a) (Finite b) =
     (if b = 0 then (if a = 0 then NaN else if a > 0 then PosInf else NegInf)
      else if a = 0 then Finite 0
      else rnd (a / b))"
| "fdiv rnd (Finite a) PosInf = Finite 0"
| "fdiv rnd (Finite a) NegInf = Finite 0"
| "fdiv rnd PosInf (Finite b) = (if b \<ge> 0 then PosInf else NegInf)"
| "fdiv rnd NegInf (Finite b) = (if b \<ge> 0 then NegInf else PosInf)"
| "fdiv rnd PosInf PosInf = NaN"
| "fdiv rnd PosInf NegInf = NaN"
| "fdiv rnd NegInf PosInf = NaN"
| "fdiv rnd NegInf NegInf = NaN"

section \<open>Cosine similarity (\<^verbatim>\<open>VertexRAGService._cosine_similarity\<close>)\<close>

text \<open>
  numpy is a library outside the repository, so what it computes on arrays is a
  parameter: \<open>np_linalg_norm\<close> is \<^verbatim>\<open>np.linalg.norm\<close> on a one-dimensional array,
  \<open>np_dot_kernel\<close> is \<^verbatim>\<open>np.dot\<close> on two one-dimensional arrays of the same length, and
  \<open>np_round\<close> is the rounding that its scalar product and quotient apply. Nothing is
  assumed about them, so overflow to an infinity, underflow to zero and NaN are all
  among the results the model can produce.
\<close>

record numpy =
  np_round :: "real \<Rightarrow> pyfloat"
  np_linalg_norm :: "pyfloat list \<Rightarrow> pyfloat"
  np_dot_kernel :: "pyfloat list \<Rightarrow> pyfloat list \<Rightarrow> pyfloat"

text \<open>\<^verbatim>\<open>np.dot\<close> raises \<^verbatim>\<open>ValueError\<close> when the shapes differ.\<close>

definition np_dot :: "numpy \<Rightarrow> pyfloat list \<Rightarrow> pyfloat list \<Rightarrow> error + pyfloat" where
  "np_dot np a b =
     (if length a \<noteq> length b then Inl (ValueError ''shapes not aligned'')
      else Inr (np_dot_kernel np a b))"

text \<open>
  The body of the \<^verbatim>\<open>try\<close> block. The guard is \<^verbatim>\<open>denom == 0\<close> on the rounded product of
  the two norms; a NaN denominator does not take it.
\<close>

definition cosine_try :: "numpy \<Rightarrow> pyfloat list \<Rightarrow> pyfloat list \<Rightarrow> error + pyfloat" where
  "cosine_try np vec1 vec2 =
     (let denom = fmul (np_round np) (np_linalg_norm np vec1) (np_linalg_norm np vec2)
      in if is_zero denom then Inr (Finite 0)
         else (case np_dot np vec1 vec2 of
                 Inl e \<Rightarrow> Inl e
               | Inr d \<Rightarrow> Inr (fdiv (np_round np) d denom)))"

text \<open>The method: \<^verbatim>\<open>except Exception\<close> logs and returns \<^verbatim>\<open>0.0\<close>.\<close>

definition cosine_similarity :: "numpy \<Rightarrow> pyfloat list \<Rightarrow> pyfloat list \<Rightarrow> error + pyfloat" where
  "cosine_similarity np vec1 vec2 =
     (case cosine_try np vec1 vec2 of
        Inl e \<Rightarrow> Inr (Finite 0)
      | Inr s \<Rightarrow> Inr s)"

section \<open>Data model (\<^verbatim>\<open>app/models/schemas.py\<close>, \<^verbatim>\<open>app/core/config.py\<close>)\<close>

text \<open>
  A \<^verbatim>\<open>datetime\<close> is a clock reading; only its order is used. Metadata values are the
  scalars the code stores; \<open>MIso t\<close> stands for the string \<^verbatim>\<open>t.isoformat()\<close>.
\<close>

type_synonym datetime = int

datatype meta_value = MStr string | MInt int | MIso datetime | MNone

type_synonym metadata = "(string \<times> meta_value) list"

datatype DocumentType = PDF | TXT

fun type_value :: "DocumentType \<Rightarrow> string" where
  "type_value PDF = ''pdf''"
| "type_value TXT = ''txt''"

record DocumentChunk =
  c_id :: string
  c_content :: string
  c_page_number :: "int option"
  c_chunk_index :: "int option"
  c_embedding :: "pyfloat list option"
  c_metadata :: "metadata option"

record Document =
  d_id :: string
  d_filename :: string
  d_title :: string
  d_content :: string
  d_type :: DocumentType
  d_size :: int
  d_uploaded_at :: datetime
  d_processed_at :: "datetime option"
  d_chunk_count :: int
  d_status :: string

record SearchResult =
  sr_chunk :: DocumentChunk
  sr_document :: Document
  sr_similarity :: pyfloat
  sr_relevance_score :: pyfloat




record Settings =
  embedding_model :: string
  gemini_model :: string
  chunk_size :: int
  chunk_overlap :: int
  search_limit :: int
  similarity_threshold :: pyfloat

text \<open>
  The defaults of the fields. The threshold literal \<^verbatim>\<open>0.4\<close> denotes the binary64 value
  nearest to it, \<open>3602879701896397 / 2 ^ 53\<close>.
\<close>

definition default_settings :: Settings where
  "default_settings =
     \<lparr> embedding_model = ''models/text-embedding-004'',
       gemini_model = ''gemini-2.0-flash-exp'',
       chunk_size = 4000,
       chunk_overlap = 200,
       search_limit = 5,
       similarity_threshold = Finite (3602879701896397 / 9007199254740992) \<rparr>"

section \<open>Text segmenter (\<^verbatim>\<open>DocumentService.chunk_document\<close>)\<close>

text \<open>
  The character loop over one line: \<open>cur\<close> is \<^verbatim>\<open>current_sentence\<close>, the result is
  \<^verbatim>\<open>line_sentences\<close>, the trailing partial sentence included.
\<close>

fun line_sentences :: "string \<Rightarrow> string \<Rightarrow> string list" where
  "line_sentences cur [] = (if py_strip cur \<noteq> [] then [py_strip cur] else [])"
| "line_sentences cur (c # cs) =
     (let cur' = cur @ [c]
      in if c \<in> set ''.!?''
         then (if py_strip cur' \<noteq> [] then [py_strip cur'] else []) @ line_sentences [] cs
         else line_sentences cur' cs)"

text \<open>
  A page marker line: the third whitespace-separated token is parsed; a \<^verbatim>\<open>ValueError\<close>
  advances the page by one; fewer than three tokens leave it alone.
\<close>

definition page_marker :: "int \<Rightarrow> string \<Rightarrow> int" where
  "page_marker current_page line =
     (let page_match = py_split line
      in if length page_match \<ge> 3
         then (case py_int (page_match ! 2) of Some n \<Rightarrow> n | None \<Rightarrow> current_page + 1)
         else current_page)"

fun scan_lines :: "int \<Rightarrow> string list \<Rightarrow> string list \<Rightarrow> int \<times> string list" where
  "scan_lines current_page sentences [] = (current_page, sentences)"
| "scan_lines current_page sentences (line # lines) =
     (if py_startswith ''--- Page'' line
      then scan_lines (page_marker current_page line) sentences lines
      else scan_lines current_page (sentences @ line_sentences [] line) lines)"

definition mk_chunk :: "string \<Rightarrow> int \<Rightarrow> nat \<Rightarrow> string \<Rightarrow> DocumentChunk" where
  "mk_chunk filename current_page chunk_index current_chunk =
     \<lparr> c_id = filename @ ''_chunk_'' @ str_nat chunk_index,
       c_content = py_strip current_chunk,
       c_page_number = Some current_page,
       c_chunk_index = Some (int chunk_index),
       c_embedding = None,
       c_metadata = Some
         [(''filename'', MStr filename),
          (''pageNumber'', MInt current_page),
          (''chunkIndex'', MInt (int chunk_index)),
          (''chunkType'', MStr ''text''),
          (''wordCount'', MInt (int (length (py_split current_chunk)))),
          (''charCount'', MInt (int (length current_chunk)))] \<rparr>"

text \<open>
  The loop over the sentences. The state is \<^verbatim>\<open>(chunks, current_chunk, chunk_index)\<close>;
  the page is the one left by the line scan, which has finished before this loop starts.
\<close>

fun chunk_loop ::
  "string \<Rightarrow> int \<Rightarrow> string list \<Rightarrow> DocumentChunk list \<times> string \<times> nat
     \<Rightarrow> DocumentChunk list \<times> string \<times> nat" where
  "chunk_loop filename current_page [] st = st"
| "chunk_loop filename current_page (s # ss) (chunks, current_chunk, chunk_index) =
     (let sentence = py_strip s
      in if sentence = [] then
           chunk_loop filename current_page ss (chunks, current_chunk, chunk_index)
         else if length current_chunk + length sentence > 4000 then
           (if current_chunk \<noteq> [] then
              chunk_loop filename current_page ss
                (chunks @ [mk_chunk filename current_page chunk_index current_chunk],
                 sentence @ '' '', chunk_index + 1)
            else
              chunk_loop filename current_page ss (chunks, sentence @ '' '', chunk_index))
         else
           chunk_loop filename current_page ss
             (chunks, current_chunk @ sentence @ '' '', chunk_index))"

text \<open>The sentences of a text and the page the scan ends on.\<close>

definition text_sentences :: "string \<Rightarrow> int \<times> string list" where
  "text_sentences text = scan_lines 1 [] (py_split_sep (CHR 0x0A) text)"

text \<open>
  \<open>cfg\<close> is \<^verbatim>\<open>self.settings\<close>. It is in scope in the method and is not read: the
  bound is the literal \<^verbatim>\<open>4000\<close>.
\<close>

definition chunk_document :: "Settings \<Rightarrow> string \<Rightarrow> string \<Rightarrow> DocumentChunk list" where
  "chunk_document cfg text filename =
     (case text_sentences text of
        (current_page, sentences) \<Rightarrow>
          (case chunk_loop filename current_page sentences ([], [], 0) of
             (chunks, current_chunk, chunk_index) \<Rightarrow>
               if py_strip current_chunk \<noteq> []
               then chunks @ [mk_chunk filename current_page chunk_index current_chunk]
               else chunks))"

section \<open>The in-memory stores\<close>

text \<open>
  A Python \<^verbatim>\<open>dict\<close> keeps insertion order, and search walks \<^verbatim>\<open>chunks_by_document\<close>
  in that order, so each store is an association list: \<open>AList.update\<close> overwrites in
  place or appends, \<open>AList.delete\<close> removes the key, \<open>map_of\<close> is \<^verbatim>\<open>dict.get\<close>.

  \<open>ds_documents\<close> is \<^verbatim>\<open>DocumentService.documents\<close>; \<open>rag_documents\<close> and
  \<open>chunks_by_document\<close> are the two maps of \<^verbatim>\<open>VertexRAGService\<close>; \<open>settings\<close> is
  the cached \<^verbatim>\<open>get_settings()\<close> that both services hold.
\<close>

record state =
  ds_documents :: "(string \<times> Document) list"
  rag_documents :: "(string \<times> Document) list"
  chunks_by_document :: "(string \<times> DocumentChunk list) list"
  settings :: Settings

definition dict_update_all :: "('k \<times> 'v) list \<Rightarrow> ('k \<times> 'v) list \<Rightarrow> ('k \<times> 'v) list" where
  "dict_update_all new d = foldl (\<lambda>acc (k, v). AList.update k v acc) d new"

fun py_join :: "string \<Rightarrow> string list \<Rightarrow> string" where
  "py_join sep [] = []"
| "py_join sep [x] = x"
| "py_join sep (x # y # ys) = x @ sep @ py_join sep (y # ys)"

section \<open>Corpus ingestion (\<^verbatim>\<open>VertexRAGService.add_document_to_corpus\<close>)\<close>

text \<open>
  The embedding provider is a parameter: \<open>generate_embedding text\<close> is the vector the
  method of that name returns for \<open>text\<close>, or the exception that leaves it once the
  retries are used up. The method passes neither \<^verbatim>\<open>title\<close> nor \<^verbatim>\<open>task_type\<close> on.
\<close>

type_synonym embedder = "string \<Rightarrow> error + pyfloat list"

definition enrich_metadata ::
  "Settings \<Rightarrow> Document \<Rightarrow> pyfloat list \<Rightarrow> metadata option \<Rightarrow> metadata" where
  "enrich_metadata cfg document emb md =
     dict_update_all
       [(''documentId'', MStr (d_id document)),
        (''documentTitle'', MStr (d_title document)),
        (''documentType'', MStr (type_value (d_type document))),
        (''uploadDate'', MIso (d_uploaded_at document)),
        (''embeddingModel'', MStr (embedding_model cfg)),
        (''embeddingDimension'', MInt (if emb \<noteq> [] then int (length emb) else 0))]
       (case md of None \<Rightarrow> [] | Some m \<Rightarrow> m)"

text \<open>
  The loop over the chunks: an exception from the provider skips the chunk
  (\<^verbatim>\<open>continue\<close>); any returned vector is assigned and the chunk is appended.
\<close>

fun enrich_chunks ::
  "embedder \<Rightarrow> Settings \<Rightarrow> Document \<Rightarrow> DocumentChunk list \<Rightarrow> DocumentChunk list" where
  "enrich_chunks generate_embedding cfg document [] = []"
| "enrich_chunks generate_embedding cfg document (chunk # chunks) =
     (case generate_embedding (c_content chunk) of
        Inl e \<Rightarrow> enrich_chunks generate_embedding cfg document chunks
      | Inr emb \<Rightarrow>
          chunk\<lparr> c_embedding := Some emb,
                 c_metadata := Some (enrich_metadata cfg document emb (c_metadata chunk)) \<rparr>
            # enrich_chunks generate_embedding cfg document chunks)"

text \<open>
  Nothing in the outer \<^verbatim>\<open>try\<close> can raise once the inner one has caught the provider's
  exceptions, so the method returns \<^verbatim>\<open>True\<close>.
\<close>

definition add_document_to_corpus ::
  "embedder \<Rightarrow> Document \<Rightarrow> DocumentChunk list \<Rightarrow> state \<Rightarrow> bool \<times> state" where
  "add_document_to_corpus generate_embedding document chunks st =
     (let st1 = st\<lparr> rag_documents := AList.update (d_id document) document (rag_documents st) \<rparr>;
          enriched_chunks = enrich_chunks generate_embedding (settings st) document chunks;
          st2 = st1\<lparr> chunks_by_document :=
                        AList.update (d_id document) enriched_chunks (chunks_by_document st1) \<rparr>
      in (True, st2))"

section \<open>Similarity search (\<^verbatim>\<open>VertexRAGService.search_documents\<close>)\<close>

text \<open>The inner loop over the chunks of one document, appending to \<^verbatim>\<open>results\<close>.\<close>

fun score_chunks ::
  "numpy \<Rightarrow> pyfloat list \<Rightarrow> pyfloat \<Rightarrow> Document \<Rightarrow> DocumentChunk list \<Rightarrow> SearchResult list
     \<Rightarrow> error + SearchResult list" where
  "score_chunks np query_embedding threshold document [] results = Inr results"
| "score_chunks np query_embedding threshold document (chunk # chunks) results =
     (case c_embedding chunk of
        None \<Rightarrow> score_chunks np query_embedding threshold document chunks results
      | Some emb \<Rightarrow>
          if emb = [] then score_chunks np query_embedding threshold document chunks results
          else
            (case cosine_similarity np query_embedding emb of
               Inl e \<Rightarrow> Inl e
             | Inr similarity \<Rightarrow>
                 if fge similarity threshold then
                   score_chunks np query_embedding threshold document chunks
                     (results @
                        [\<lparr> sr_chunk = chunk, sr_document = document,
                            sr_similarity = similarity, sr_relevance_score = similarity \<rparr>])
                 else score_chunks np query_embedding threshold document chunks results))"

text \<open>The outer loop over \<^verbatim>\<open>chunks_by_document.items()\<close>.\<close>

fun scan_documents ::
  "numpy \<Rightarrow> pyfloat list \<Rightarrow> pyfloat \<Rightarrow> string list option \<Rightarrow> (string \<times> Document) list
     \<Rightarrow> (string \<times> DocumentChunk list) list \<Rightarrow> SearchResult list
     \<Rightarrow> error + SearchResult list" where
  "scan_documents np query_embedding threshold document_ids documents [] results = Inr results"
| "scan_documents np query_embedding threshold document_ids documents ((doc_id, chunks) # rest)
     results =
     (if (case document_ids of None \<Rightarrow> False | Some ids \<Rightarrow> ids \<noteq> [] \<and> doc_id \<notin> set ids)
      then scan_documents np query_embedding threshold document_ids documents rest results
      else
        (case map_of documents doc_id of
           None \<Rightarrow> scan_documents np query_embedding threshold document_ids documents rest results
         | Some document \<Rightarrow>
             (case score_chunks np query_embedding threshold document chunks results of
                Inl e \<Rightarrow> Inl e
              | Inr results' \<Rightarrow>
                  scan_documents np query_embedding threshold document_ids documents rest
                    results')))"

text \<open>
  \<^verbatim>\<open>results.sort(key=lambda r: r.similarity, reverse=True)\<close> is a stable sort into
  non-increasing order of the keys. Every key that reaches it has passed the threshold
  test, so none is NaN, and on the other values the order of floats is the order of
  \<open>float_key\<close>; the sort is the stable insertion sort on the negated key. NaN, which has
  no place in the order, is given the key of negative infinity.
\<close>

fun float_key :: "pyfloat \<Rightarrow> int \<times> real" where
  "float_key NegInf = (0, 0)"
| "float_key (Finite x) = (1, x)"
| "float_key PosInf = (2, 0)"
| "float_key NaN = (0, 0)"

definition descending_key :: "pyfloat \<Rightarrow> int \<times> real" where
  "descending_key x = (- fst (float_key x), - snd (float_key x))"

definition sort_by_similarity :: "SearchResult list \<Rightarrow> SearchResult list" where
  "sort_by_similarity results = sort_key (\<lambda>r. descending_key (sr_similarity r)) results"

text \<open>The threshold of a call: the argument, or the configured one when it is \<^verbatim>\<open>None\<close>.\<close>

definition threshold_in_effect :: "pyfloat option \<Rightarrow> state \<Rightarrow> pyfloat" where
  "threshold_in_effect threshold st =
     (case threshold of None \<Rightarrow> similarity_threshold (settings st) | Some t \<Rightarrow> t)"

definition search_try ::
  "numpy \<Rightarrow> embedder \<Rightarrow> string \<Rightarrow> int \<Rightarrow> pyfloat option \<Rightarrow> string list option \<Rightarrow> state
     \<Rightarrow> error + SearchResult list" where
  "search_try np generate_embedding query limit threshold document_ids st =
     (let threshold' = threshold_in_effect threshold st
      in case generate_embedding query of
           Inl e \<Rightarrow> Inl e
         | Inr query_embedding \<Rightarrow>
             (case scan_documents np query_embedding threshold' document_ids (rag_documents st)
                     (chunks_by_document st) [] of
                Inl e \<Rightarrow> Inl e
              | Inr results \<Rightarrow> Inr (py_take limit (sort_by_similarity results))))"

definition search_documents ::
  "numpy \<Rightarrow> embedder \<Rightarrow> string \<Rightarrow> int \<Rightarrow> pyfloat option \<Rightarrow> string list option \<Rightarrow> state
     \<Rightarrow> error + SearchResult list" where
  "search_documents np generate_embedding query limit threshold document_ids st =
     (case search_try np generate_embedding query limit threshold document_ids st of
        Inl e \<Rightarrow> Inl (SearchError (''Search failed: '' @ str_of_error e))
      | Inr results \<Rightarrow> Inr results)"

section \<open>Document service (\<^verbatim>\<open>DocumentService\<close>)\<close>

text \<open>
  What \<^verbatim>\<open>validate_file\<close> reports about the uploaded file: validity, the error
  list, and \<^verbatim>\<open>file_info["size"]\<close>.
\<close>

record FileValidationResult =
  v_is_valid :: bool
  v_errors :: "string list"
  v_size :: int

text \<open>\<^verbatim>\<open>filename.rsplit('.', 1)[0]\<close>: the name up to its last dot.\<close>

definition title_of :: "string \<Rightarrow> string" where
  "title_of filename =
     (if CHR ''.'' \<in> set filename
      then rev (tl (dropWhile (\<lambda>c. c \<noteq> CHR ''.'') (rev filename)))
      else filename)"

text \<open>The document type: PDF when the lower-cased text after the last dot is \<^verbatim>\<open>pdf\<close>.\<close>

definition document_type_of :: "string \<Rightarrow> DocumentType" where
  "document_type_of filename =
     (let file_ext = last (py_split_sep (CHR ''.'') (py_lower filename))
      in if file_ext = ''pdf'' then PDF else TXT)"

text \<open>
  The validation loop of \<^verbatim>\<open>process_document\<close>: short chunks are skipped, missing
  metadata becomes an empty dictionary, a page below 1 becomes 1.
\<close>

fun valid_chunks :: "DocumentChunk list \<Rightarrow> DocumentChunk list" where
  "valid_chunks [] = []"
| "valid_chunks (chunk # chunk_data) =
     (if c_content chunk = [] \<or> length (py_strip (c_content chunk)) < 10
      then valid_chunks chunk_data
      else
        chunk\<lparr> c_metadata :=
                 (case c_metadata chunk of
                    None \<Rightarrow> Some []
                  | Some m \<Rightarrow> if m = [] then Some [] else Some m),
               c_page_number :=
                 (case c_page_number chunk of
                    None \<Rightarrow> Some 1
                  | Some n \<Rightarrow> if n < 1 then Some 1 else Some n) \<rparr>
          # valid_chunks chunk_data)"

text \<open>
  The \<^verbatim>\<open>except\<close> clause of \<^verbatim>\<open>process_document\<close>: the two application errors pass,
  anything else is wrapped.
\<close>

fun reraise :: "error \<Rightarrow> error" where
  "reraise (DocumentProcessingError m) = DocumentProcessingError m"
| "reraise (FileValidationError m) = FileValidationError m"
| "reraise e = DocumentProcessingError (''Failed to process document: '' @ str_of_error e)"

text \<open>
  The parameters stand for the environment of one call: \<open>validation\<close> is the result of
  \<^verbatim>\<open>validate_file\<close>, \<open>extract\<close> the result of the text extractor for a document
  type, \<open>doc_id\<close> the fresh \<^verbatim>\<open>uuid4\<close>, \<open>now1\<close> and \<open>now2\<close> the two clock
  readings. Writing the JSON snapshot changes neither store, and its failure is only
  logged. The corpus holds the very \<^verbatim>\<open>Document\<close> object that is completed afterwards,
  so the completed record is what both maps show.
\<close>

definition process_document ::
  "embedder \<Rightarrow> FileValidationResult \<Rightarrow> (DocumentType \<Rightarrow> error + string) \<Rightarrow> string
     \<Rightarrow> datetime \<Rightarrow> datetime \<Rightarrow> string \<Rightarrow> state \<Rightarrow> (error + Document) \<times> state" where
  "process_document generate_embedding validation extract doc_id now1 now2 filename st =
     (if \<not> v_is_valid validation then
        (Inl (reraise (FileValidationError
                (''File validation failed: '' @ py_join '', '' (v_errors validation)))), st)
      else
        let doc_type = document_type_of filename
        in case extract doc_type of
             Inl e \<Rightarrow> (Inl (reraise e), st)
           | Inr text_content \<Rightarrow>
               let document =
                     \<lparr> d_id = doc_id, d_filename = filename, d_title = title_of filename,
                       d_content = text_content, d_type = doc_type,
                       d_size = v_size validation, d_uploaded_at = now1,
                       d_processed_at = None, d_chunk_count = 0,
                       d_status = ''processing'' \<rparr>;
                   chunk_data = chunk_document (settings st) text_content filename;
                   chunks = valid_chunks chunk_data
               in if chunks = [] then
                    (Inl (reraise (DocumentProcessingError
                            ''No valid chunks generated from document'')), st)
                  else
                    let (ok, st1) = add_document_to_corpus generate_embedding document chunks st;
                        document' = document\<lparr> d_chunk_count := int (length chunks),
                                               d_processed_at := Some now2,
                                               d_status := ''completed'' \<rparr>;
                        st2 = st1\<lparr> rag_documents := AList.update doc_id document' (rag_documents st1),
                                    ds_documents := AList.update doc_id document' (ds_documents st1) \<rparr>
                    in (Inr document', st2))"

definition get_document :: "string \<Rightarrow> state \<Rightarrow> Document option" where
  "get_document document_id st = map_of (ds_documents st) document_id"

definition list_documents :: "int \<Rightarrow> int \<Rightarrow> state \<Rightarrow> Document list" where
  "list_documents skip limit st =
     (let docs = sort_key (\<lambda>x. - d_uploaded_at x) (map snd (ds_documents st))
      in py_slice skip (skip + limit) docs)"

text \<open>
  \<open>fs_error\<close> is the exception, if any, that removing the snapshot file raises; the
  entry has left \<^verbatim>\<open>self.documents\<close> by then. Neither map of the corpus is touched.
\<close>

definition delete_document :: "error option \<Rightarrow> string \<Rightarrow> state \<Rightarrow> bool \<times> state" where
  "delete_document fs_error document_id st =
     (let st' = st\<lparr> ds_documents := AList.delete document_id (ds_documents st) \<rparr>
      in case fs_error of
           None \<Rightarrow> (True, st')
         | Some e \<Rightarrow> (False, st'))"

definition get_document_count :: "state \<Rightarrow> nat" where
  "get_document_count st = length (ds_documents st)"

section \<open>Answer pipeline (\<^verbatim>\<open>VertexRAGService.answer_question\<close>)\<close>















section \<open>Example runs\<close>

text \<open>
  Concrete inputs for the closed theorems below. The first is an instance of numpy:
  binary64 arithmetic with the rounding of the significand left out. An exact result
  at or beyond the overflow threshold \<open>2 ^ 1024 - 2 ^ 970\<close> becomes an infinity, one of
  magnitude at most \<open>1 / 2 ^ 1075\<close> becomes zero, and any other is kept. The dot product
  adds the rounded products in index order and the norm is the rounded square root of
  the dot product of the array with itself. On the values used below (small integers
  and powers of two) every exact result is a binary64 value or out of range, and the
  instance computes what binary64 computes.
\<close>

definition coarse_round :: "real \<Rightarrow> pyfloat" where
  "coarse_round x =
     (if x \<ge> 2 ^ 1024 - 2 ^ 970 then PosInf
      else if x \<le> - (2 ^ 1024 - 2 ^ 970) then NegInf
      else if \<bar>x\<bar> \<le> 1 / 2 ^ 1075 then Finite 0
      else Finite x)"

fun fadd :: "(real \<Rightarrow> pyfloat) \<Rightarrow> pyfloat \<Rightarrow> pyfloat \<Rightarrow> pyfloat" where
  "fadd rnd NaN b = NaN"
| "fadd rnd a NaN = NaN"
| "fadd rnd (Finite a) (Finite b) = (if a + b = 0 then Finite 0 else rnd (a + b))"
| "fadd rnd (Finite a) PosInf = PosInf"
| "fadd rnd (Finite a) NegInf = NegInf"
| "fadd rnd PosInf (Finite b) = PosInf"
| "fadd rnd NegInf (Finite b) = NegInf"
| "fadd rnd PosInf PosInf = PosInf"
| "fadd rnd NegInf NegInf = NegInf"
| "fadd rnd PosInf NegInf = NaN"
| "fadd rnd NegInf PosInf = NaN"

fun fsqrt :: "(real \<Rightarrow> pyfloat) \<Rightarrow> pyfloat \<Rightarrow> pyfloat" where
  "fsqrt rnd NaN = NaN"
| "fsqrt rnd NegInf = NaN"
| "fsqrt rnd PosInf = PosInf"
| "fsqrt rnd (Finite a) = (if a < 0 then NaN else if a = 0 then Finite 0 else rnd (sqrt a))"

definition sequential_dot :: "(real \<Rightarrow> pyfloat) \<Rightarrow> pyfloat list \<Rightarrow> pyfloat list \<Rightarrow> pyfloat" where
  "sequential_dot rnd a b =
     foldl (\<lambda>acc (x, y). fadd rnd acc (fmul rnd x y)) (Finite 0) (zip a b)"

definition example_numpy :: numpy where
  "example_numpy =
     \<lparr> np_round = coarse_round,
       np_linalg_norm = (\<lambda>v. fsqrt coarse_round (sequential_dot coarse_round v v)),
       np_dot_kernel = sequential_dot coarse_round \<rparr>"

text \<open>
  Two binary64 values whose squares leave the binary64 range: the square of the
  first overflows, the square of the second underflows to zero.
\<close>

definition huge :: real where
  "huge = 2 ^ 600"

definition tiny :: real where
  "tiny = 1 / 2 ^ 600"


definition empty_state :: state where
  "empty_state =
     \<lparr> ds_documents = [], rag_documents = [], chunks_by_document = [],
       settings = default_settings \<rparr>"

definition valid_upload :: FileValidationResult where
  "valid_upload = \<lparr> v_is_valid = True, v_errors = [], v_size = 25 \<rparr>"

definition unit_embedder :: embedder where
  "unit_embedder = (\<lambda>text. Inr [Finite 1, Finite 0])"

definition failing_embedder :: embedder where
  "failing_embedder = (\<lambda>text. Inl (SearchError ''Failed to generate embedding: quota''))"

definition cat_text :: string where
  "cat_text = ''The cat sat. It was calm.''"

definition dog_text :: string where
  "dog_text = ''The dog ran. It was fast.''"

definition one_doc_state :: state where
  "one_doc_state =
     snd (process_document unit_embedder valid_upload (\<lambda>t. Inr cat_text)
            ''doc-1'' 5 6 ''cat.txt'' empty_state)"

definition two_docs_state :: state where
  "two_docs_state =
     snd (process_document unit_embedder valid_upload (\<lambda>t. Inr dog_text)
            ''doc-2'' 7 8 ''dog.txt'' one_doc_state)"

definition cat_document :: Document where
  "cat_document =
     \<lparr> d_id = ''doc-1'', d_filename = ''cat.txt'', d_title = ''cat'',
       d_content = cat_text, d_type = TXT, d_size = 25, d_uploaded_at = 5,
       d_processed_at = Some 6, d_chunk_count = 1, d_status = ''completed'' \<rparr>"

definition cat_chunk :: DocumentChunk where
  "cat_chunk =
     \<lparr> c_id = ''cat.txt_chunk_0'', c_content = cat_text,
       c_page_number = Some 1, c_chunk_index = Some 0, c_embedding = Some [Finite 1, Finite 0],
       c_metadata = Some
         [(''filename'', MStr ''cat.txt''), (''pageNumber'', MInt 1),
          (''chunkIndex'', MInt 0), (''chunkType'', MStr ''text''),
          (''wordCount'', MInt 6), (''charCount'', MInt 26),
          (''documentId'', MStr ''doc-1''), (''documentTitle'', MStr ''cat''),
          (''documentType'', MStr ''txt''), (''uploadDate'', MIso 5),
          (''embeddingModel'', MStr ''models/text-embedding-004''),
          (''embeddingDimension'', MInt 2)] \<rparr>"

definition dog_document :: Document where
  "dog_document =
     \<lparr> d_id = ''doc-2'', d_filename = ''dog.txt'', d_title = ''dog'',
       d_content = dog_text, d_type = TXT, d_size = 25, d_uploaded_at = 7,
       d_processed_at = Some 8, d_chunk_count = 1, d_status = ''completed'' \<rparr>"

definition dog_chunk :: DocumentChunk where
  "dog_chunk =
     \<lparr> c_id = ''dog.txt_chunk_0'', c_content = dog_text,
       c_page_number = Some 1, c_chunk_index = Some 0, c_embedding = Some [Finite 1, Finite 0],
       c_metadata = Some
         [(''filename'', MStr ''dog.txt''), (''pageNumber'', MInt 1),
          (''chunkIndex'', MInt 0), (''chunkType'', MStr ''text''),
          (''wordCount'', MInt 6), (''charCount'', MInt 26),
          (''documentId'', MStr ''doc-2''), (''documentTitle'', MStr ''dog''),
          (''documentType'', MStr ''txt''), (''uploadDate'', MIso 7),
          (''embeddingModel'', MStr ''models/text-embedding-004''),
          (''embeddingDimension'', MInt 2)] \<rparr>"

definition hit :: "DocumentChunk \<Rightarrow> Document \<Rightarrow> SearchResult" where
  "hit chunk document =
     \<lparr> sr_chunk = chunk, sr_document = document, sr_similarity = Finite 1,
       sr_relevance_score = Finite 1 \<rparr>"

definition short_text :: string where
  "short_text = ''Hi.''"

definition cat_draft :: DocumentChunk where
  "cat_draft = mk_chunk ''cat.txt'' 1 0 ''The cat sat. It was calm. ''"

definition dog_draft :: DocumentChunk where
  "dog_draft = mk_chunk ''dog.txt'' 1 0 ''The dog ran. It was fast. ''"

definition picky_embedder :: embedder where
  "picky_embedder =
     (\<lambda>text. if text = dog_text then Inl (SearchError ''Failed to generate embedding: quota'')
             else Inr [Finite 1, Finite 0])"



definition small_settings :: Settings where
  "small_settings = default_settings\<lparr> chunk_size := 10 \<rparr>"

definition greek_text :: string where
  "greek_text = ''Alpha beta gamma delta. Epsilon zeta eta theta.''"

section \<open>Notions used in the statements about stored chunks\<close>

text \<open>
  A chunk is embedded when it carries a non-empty embedding; a store is embedded when
  every chunk in \<^verbatim>\<open>chunks_by_document\<close> is.
\<close>

definition embedded :: "DocumentChunk \<Rightarrow> bool" where
  "embedded c \<longleftrightarrow> (\<exists>e. c_embedding c = Some e \<and> e \<noteq> [])"

definition store_embedded :: "state \<Rightarrow> bool" where
  "store_embedded st \<longleftrightarrow> (\<forall>p\<in>set (chunks_by_document st). \<forall>c\<in>set (snd p). embedded c)"

section \<open>Notions used in the proofs about the segmenter\<close>

text \<open>
  A sentence is clean when it is not empty and neither starts nor ends with
  whitespace. \<open>buffer_of g\<close> is the running buffer after the sentences of \<open>g\<close> have
  been appended to an empty one. A list of closed groups is well grouped when every
  group is a non-empty run of clean sentences that is a single sentence or joins to at
  most 4000 characters.
\<close>

definition clean :: "string \<Rightarrow> bool" where
  "clean s \<longleftrightarrow> s \<noteq> [] \<and> \<not> is_space (hd s) \<and> \<not> is_space (last s)"

definition buffer_of :: "string list \<Rightarrow> string" where
  "buffer_of g = concat (map (\<lambda>s. s @ '' '') g)"

definition well_grouped :: "string list list \<Rightarrow> bool" where
  "well_grouped groups \<longleftrightarrow>
     (\<forall>g\<in>set groups. g \<noteq> [] \<and> (\<forall>s\<in>set g. clean s) \<and>
        (length g = 1 \<or> length (py_join '' '' g) \<le> 4000))"

section \<open>Properties of the cosine similarity\<close>

lemma cosine_similarity_total: "\<exists>s. cosine_similarity np a b = Inr s"
  by (simp add: cosine_similarity_def split: sum.splits)

lemma coarse_round_0: "coarse_round 0 = Finite 0"
  by (simp add: coarse_round_def)

lemma coarse_round_1: "coarse_round 1 = Finite 1"
  by (simp add: coarse_round_def)

lemma example_round: "np_round example_numpy = coarse_round"
  by (simp add: example_numpy_def)

lemma example_norm_unit: "np_linalg_norm example_numpy [Finite 1, Finite 0] = Finite 1"
  by (simp add: example_numpy_def sequential_dot_def coarse_round_1)

lemma example_dot_unit:
  "np_dot_kernel example_numpy [Finite 1, Finite 0] [Finite 1, Finite 0] = Finite 1"
  by (simp add: example_numpy_def sequential_dot_def coarse_round_1)

lemma cosine_unit:
  "cosine_similarity example_numpy [Finite 1, Finite 0] [Finite 1, Finite 0] = Inr (Finite 1)"
  by (simp add: cosine_similarity_def cosine_try_def np_dot_def is_zero_def Let_def
      example_norm_unit example_dot_unit example_round coarse_round_1)

text \<open>
  Claim C4, as stated, fails: on vectors of lengths 1 and 2 the dot product raises
  inside the \<^verbatim>\<open>try\<close> block, the handler catches it, and the method returns the
  similarity value 0.
\<close>

theorem cosine_dimension_mismatch_counterexample:
  "length [Finite 1] \<noteq> length [Finite 1, Finite 0] \<and>
   cosine_try example_numpy [Finite 1] [Finite 1, Finite 0] =
     Inl (ValueError ''shapes not aligned'') \<and>
   cosine_similarity example_numpy [Finite 1] [Finite 1, Finite 0] = Inr (Finite 0)"
  by (simp add: cosine_similarity_def cosine_try_def np_dot_def is_zero_def Let_def
      example_numpy_def sequential_dot_def coarse_round_1)

text \<open>
  Claim C4, amended. For every pair of vectors of differing dimensionality the
  cosine-similarity method does not raise: it returns the similarity 0.
\<close>

theorem cosine_dimension_mismatch_returns_zero:
  "length a \<noteq> length b \<Longrightarrow> cosine_similarity np a b = Inr (Finite 0)"
  by (simp add: cosine_similarity_def cosine_try_def np_dot_def Let_def)

theorem cosine_dimension_mismatch_returns_zero_witness:
  "length [Finite 1] \<noteq> length [Finite 1, Finite 0] \<and>
   cosine_similarity example_numpy [Finite 1] [Finite 1, Finite 0] = Inr (Finite 0)"
  using cosine_dimension_mismatch_returns_zero [of "[Finite 1]" "[Finite 1, Finite 0]" example_numpy]
  by simp

lemma tolerance_upper:
  assumes "0 \<le> (u :: real)" and "u \<le> 1 / 16"
  shows "1 + u \<le> (1 + 6 * u) * (1 - u) ^ 3"
proof -
  have id: "(1 + 6 * u) * (1 - u) ^ 3 - (1 + u) = u * ((2 - 15 * u) + u * (u * (17 - 6 * u)))"
    by (simp add: power3_eq_cube algebra_simps)
  have "0 \<le> 2 - 15 * u" using assms by simp
  moreover have "0 \<le> u * (u * (17 - 6 * u))" using assms by simp
  ultimately have "0 \<le> (2 - 15 * u) + u * (u * (17 - 6 * u))" by linarith
  then have "0 \<le> u * ((2 - 15 * u) + u * (u * (17 - 6 * u)))"
    using assms(1) by (rule mult_nonneg_nonneg [rotated])
  then show ?thesis using id by linarith
qed

lemma tolerance_lower:
  assumes "0 \<le> (u :: real)" and "u \<le> 1 / 16"
  shows "(1 - 6 * u) * (1 + u) ^ 3 \<le> 1 - u"
proof -
  have id: "(1 - u) - (1 - 6 * u) * (1 + u) ^ 3 =
      u * (2 + u * (15 + u * (17 + 6 * u)))"
    by (simp add: power3_eq_cube algebra_simps)
  have "0 \<le> u * (2 + u * (15 + u * (17 + 6 * u)))"
    using assms(1) by (intro mult_nonneg_nonneg add_nonneg_nonneg) simp_all
  then show ?thesis using id by linarith
qed

lemma example_dot_kernel: "np_dot_kernel example_numpy = sequential_dot coarse_round"
  by (simp add: example_numpy_def)

lemma example_norm:
  "np_linalg_norm example_numpy v = fsqrt coarse_round (sequential_dot coarse_round v v)"
  by (simp add: example_numpy_def)

lemma huge_nonzero: "huge \<noteq> 0"
  by (simp add: huge_def)

lemma coarse_round_huge: "coarse_round (huge * huge) = PosInf"
  by (simp add: coarse_round_def huge_def)

lemma tiny_nonzero: "tiny \<noteq> 0"
  by (simp add: tiny_def)

lemma coarse_round_tiny: "coarse_round (tiny * tiny) = Finite 0"
proof -
  have "tiny * tiny = 1 / 2 ^ 1200" by (simp add: tiny_def)
  moreover have "(1 :: real) / 2 ^ 1200 \<le> 1 / 2 ^ 1075"
    by (intro divide_left_mono power_increasing) simp_all
  moreover have "(0 :: real) \<le> 1 / 2 ^ 1200" by simp
  ultimately show ?thesis by (simp add: coarse_round_def)
qed

lemma zero_products:
  "foldl (\<lambda>acc (x, y). fadd rnd acc (fmul rnd x y)) (Finite 0)
     (replicate k (Finite 0, Finite 0)) = Finite 0"
  by (induction k) simp_all

lemma example_norm_zero_vector:
  "np_linalg_norm example_numpy (replicate k (Finite 0)) = Finite 0"
  by (simp add: example_norm sequential_dot_def zip_replicate zero_products)

lemma sqrt_25: "sqrt 25 = 5"
  by (rule real_sqrt_unique) simp_all

lemma coarse_round_small: "coarse_round 5 = Finite 5" "coarse_round 9 = Finite 9"
  "coarse_round 16 = Finite 16" "coarse_round 25 = Finite 25"
  by (simp_all add: coarse_round_def)

text \<open>
  Claim C6, as stated, fails on floats. With components \<open>2 ^ 600\<close> the squares overflow:
  the norm is infinite, not zero, and the similarity of the vector with itself is
  \<open>inf / inf\<close>, NaN. With the component \<open>1 / 2 ^ 600\<close> the square underflows: the vector
  is not zero, its norm is computed as 0 and the guard returns 0.0 for the vector with
  itself. For the zero vector against an overflowing vector the denominator is
  \<open>0 * inf\<close>, NaN, which the guard \<^verbatim>\<open>denom == 0\<close> lets through, and the result is NaN.
\<close>

theorem cosine_overflow_counterexample:
  "np_linalg_norm example_numpy [Finite huge, Finite huge] = PosInf \<and>
   cosine_similarity example_numpy [Finite huge, Finite huge] [Finite huge, Finite huge] =
     Inr NaN \<and>
   tiny \<noteq> 0 \<and>
   cosine_similarity example_numpy [Finite tiny] [Finite tiny] = Inr (Finite 0) \<and>
   np_linalg_norm example_numpy [Finite 0] = Finite 0 \<and>
   cosine_similarity example_numpy [Finite 0] [Finite huge] = Inr NaN"
  by (simp add: cosine_similarity_def cosine_try_def np_dot_def is_zero_def Let_def
      example_round example_dot_kernel example_norm sequential_dot_def huge_nonzero
      coarse_round_huge tiny_nonzero coarse_round_tiny)

text \<open>
  Claim C6, amended. Let \<open>d\<close> be the dot product of \<open>v\<close> with itself as numpy computes
  it, positive, and let the norm, the product of the norm with itself and the quotient
  be computed without overflow or underflow: each is finite and within the relative
  error \<open>u\<close> of the exact value, \<open>u\<close> at most 1/16 (binary64 gives \<open>1 / 2 ^ 53\<close>). Then the
  similarity of \<open>v\<close> with itself is within \<open>6 * u\<close> of 1. For a vector whose norm is
  computed as 0, as the zero vector's is, and a vector whose norm is finite, the
  denominator is 0 and the guard returns 0 before any division, whichever side the
  zero vector is on.
\<close>

theorem cosine_self_near_one_zero_guarded:
  "(np_dot_kernel np v v = Finite d \<and> np_linalg_norm np v = Finite n \<and>
    np_round np (n * n) = Finite p \<and> np_round np (d / p) = Finite r \<and>
    0 < d \<and> \<bar>n - sqrt d\<bar> \<le> u * sqrt d \<and> \<bar>p - n * n\<bar> \<le> u * (n * n) \<and>
    \<bar>r - d / p\<bar> \<le> u * (d / p) \<and> 0 \<le> u \<and> u \<le> 1 / 16 \<longrightarrow>
      cosine_similarity np v v = Inr (Finite r) \<and> \<bar>r - 1\<bar> \<le> 6 * u) \<and>
   (np_linalg_norm np z = Finite 0 \<and> np_linalg_norm np w = Finite m \<longrightarrow>
      fmul (np_round np) (np_linalg_norm np z) (np_linalg_norm np w) = Finite 0 \<and>
      fmul (np_round np) (np_linalg_norm np w) (np_linalg_norm np z) = Finite 0 \<and>
      cosine_similarity np z w = Inr (Finite 0) \<and>
      cosine_similarity np w z = Inr (Finite 0))"
proof (intro conjI impI)
  assume h: "np_dot_kernel np v v = Finite d \<and> np_linalg_norm np v = Finite n \<and>
    np_round np (n * n) = Finite p \<and> np_round np (d / p) = Finite r \<and>
    0 < d \<and> \<bar>n - sqrt d\<bar> \<le> u * sqrt d \<and> \<bar>p - n * n\<bar> \<le> u * (n * n) \<and>
    \<bar>r - d / p\<bar> \<le> u * (d / p) \<and> 0 \<le> u \<and> u \<le> 1 / 16"
  then have dot: "np_dot_kernel np v v = Finite d" and norm: "np_linalg_norm np v = Finite n"
    and prod: "np_round np (n * n) = Finite p" and quot: "np_round np (d / p) = Finite r"
    and pos: "0 < d" and en: "\<bar>n - sqrt d\<bar> \<le> u * sqrt d"
    and ep: "\<bar>p - n * n\<bar> \<le> u * (n * n)" and er: "\<bar>r - d / p\<bar> \<le> u * (d / p)"
    and u0: "0 \<le> u" and u1: "u \<le> 1 / 16"
    by simp_all
  let ?s = "sqrt d"
  have s: "0 < ?s" and ss: "?s * ?s = d" using pos by simp_all
  have lo: "0 < 1 - u" using u1 by simp
  have n_lo: "?s * (1 - u) \<le> n" and n_hi: "n \<le> ?s * (1 + u)"
    using en by (simp_all add: abs_le_iff algebra_simps)
  have n_pos: "0 < n" using n_lo s lo by (meson less_le_trans mult_pos_pos)
  have nn_lo: "d * (1 - u) ^ 2 \<le> n * n"
  proof -
    have "(?s * (1 - u)) * (?s * (1 - u)) \<le> n * n"
      using n_lo n_pos s lo by (intro mult_mono) simp_all
    moreover have "(?s * (1 - u)) * (?s * (1 - u)) = d * (1 - u) ^ 2"
      using ss by (simp add: power2_eq_square algebra_simps)
    ultimately show ?thesis by simp
  qed
  have nn_hi: "n * n \<le> d * (1 + u) ^ 2"
  proof -
    have "n * n \<le> (?s * (1 + u)) * (?s * (1 + u))"
      using n_hi n_pos by (intro mult_mono) simp_all
    moreover have "(?s * (1 + u)) * (?s * (1 + u)) = d * (1 + u) ^ 2"
      using ss by (simp add: power2_eq_square algebra_simps)
    ultimately show ?thesis by simp
  qed
  have nn_pos: "0 < n * n" using n_pos by simp
  have p_lo1: "n * n * (1 - u) \<le> p" and p_hi1: "p \<le> n * n * (1 + u)"
    using ep by (simp_all add: abs_le_iff algebra_simps)
  have p_pos: "0 < p" using p_lo1 nn_pos lo by (meson less_le_trans mult_pos_pos)
  have p_lo: "d * (1 - u) ^ 3 \<le> p"
  proof -
    have "d * (1 - u) ^ 2 * (1 - u) \<le> n * n * (1 - u)"
      using nn_lo lo by (intro mult_right_mono) simp_all
    then show ?thesis using p_lo1 by (simp add: power3_eq_cube power2_eq_square algebra_simps)
  qed
  have p_hi: "p \<le> d * (1 + u) ^ 3"
  proof -
    have "n * n * (1 + u) \<le> d * (1 + u) ^ 2 * (1 + u)"
      using nn_hi u0 by (intro mult_right_mono) simp_all
    then show ?thesis using p_hi1 by (simp add: power3_eq_cube power2_eq_square algebra_simps)
  qed
  define q where "q = d / p"
  have q: "q * p = d" using p_pos by (simp add: q_def)
  have q_pos: "0 < q" using pos p_pos by (simp add: q_def)
  have er': "\<bar>r - q\<bar> \<le> u * q" using er by (simp add: q_def)
  have r_lo1: "q * (1 - u) \<le> r" and r_hi1: "r \<le> q * (1 + u)"
    using er' by (simp_all add: abs_le_iff algebra_simps)
  have r_pos: "0 < r" using r_lo1 q_pos lo by (meson less_le_trans mult_pos_pos)
  have rp_hi: "r * p \<le> d * (1 + u)"
  proof -
    have "r * p \<le> q * (1 + u) * p" using r_hi1 p_pos by (intro mult_right_mono) simp_all
    moreover have "q * (1 + u) * p = (q * p) * (1 + u)" by (simp add: algebra_simps)
    ultimately show ?thesis using q by simp
  qed
  have rp_lo: "d * (1 - u) \<le> r * p"
  proof -
    have "q * (1 - u) * p \<le> r * p" using r_lo1 p_pos by (intro mult_right_mono) simp_all
    moreover have "q * (1 - u) * p = (q * p) * (1 - u)" by (simp add: algebra_simps)
    ultimately show ?thesis using q by simp
  qed
  have upper: "r \<le> 1 + 6 * u"
  proof -
    have "r * (d * (1 - u) ^ 3) \<le> r * p" using p_lo r_pos by (intro mult_left_mono) simp_all
    then have "d * (r * (1 - u) ^ 3) \<le> d * (1 + u)" using rp_hi by (simp add: algebra_simps)
    then have "r * (1 - u) ^ 3 \<le> 1 + u" using pos by simp
    also have "\<dots> \<le> (1 + 6 * u) * (1 - u) ^ 3" using u0 u1 by (rule tolerance_upper)
    finally show ?thesis using lo by simp
  qed
  have lower: "1 - 6 * u \<le> r"
  proof -
    have "r * p \<le> r * (d * (1 + u) ^ 3)" using p_hi r_pos by (intro mult_left_mono) simp_all
    then have "d * (1 - u) \<le> d * (r * (1 + u) ^ 3)" using rp_lo by (simp add: algebra_simps)
    then have "1 - u \<le> r * (1 + u) ^ 3" using pos by simp
    moreover have "(1 - 6 * u) * (1 + u) ^ 3 \<le> 1 - u" using u0 u1 by (rule tolerance_lower)
    ultimately have "(1 - 6 * u) * (1 + u) ^ 3 \<le> r * (1 + u) ^ 3" by linarith
    moreover have "0 < (1 + u) ^ 3" using u0 by simp
    ultimately show ?thesis by simp
  qed
  have denom: "fmul (np_round np) (Finite n) (Finite n) = Finite p"
    using n_pos prod by simp
  have "cosine_try np v v = Inr (Finite r)"
    using denom p_pos pos quot dot norm
    by (simp add: cosine_try_def np_dot_def is_zero_def Let_def)
  then show "cosine_similarity np v v = Inr (Finite r)"
    by (simp add: cosine_similarity_def)
  show "\<bar>r - 1\<bar> \<le> 6 * u" using upper lower by (simp add: abs_le_iff)
next
  assume h: "np_linalg_norm np z = Finite 0 \<and> np_linalg_norm np w = Finite m"
  then show "fmul (np_round np) (np_linalg_norm np z) (np_linalg_norm np w) = Finite 0"
    and "fmul (np_round np) (np_linalg_norm np w) (np_linalg_norm np z) = Finite 0"
    by simp_all
  then show "cosine_similarity np z w = Inr (Finite 0)"
    and "cosine_similarity np w z = Inr (Finite 0)"
    by (simp_all add: cosine_similarity_def cosine_try_def is_zero_def Let_def)
qed

theorem cosine_self_near_one_zero_guarded_witness:
  "np_dot_kernel example_numpy [Finite 3, Finite 4] [Finite 3, Finite 4] = Finite 25 \<and>
   np_linalg_norm example_numpy [Finite 3, Finite 4] = Finite 5 \<and>
   np_round example_numpy (5 * 5) = Finite 25 \<and>
   np_round example_numpy (25 / 25) = Finite 1 \<and>
   (0 :: real) < 25 \<and> \<bar>5 - sqrt 25\<bar> \<le> 1 / 2 ^ 53 * sqrt 25 \<and>
   \<bar>25 - 5 * 5\<bar> \<le> 1 / 2 ^ 53 * (5 * 5 :: real) \<and>
   \<bar>1 - 25 / 25\<bar> \<le> 1 / 2 ^ 53 * (25 / 25 :: real) \<and>
   (0 :: real) \<le> 1 / 2 ^ 53 \<and> (1 / 2 ^ 53 :: real) \<le> 1 / 16 \<and>
   cosine_similarity example_numpy [Finite 3, Finite 4] [Finite 3, Finite 4] = Inr (Finite 1) \<and>
   \<bar>1 - 1\<bar> \<le> 6 * (1 / 2 ^ 53 :: real) \<and>
   np_linalg_norm example_numpy [Finite 0, Finite 0] = Finite 0 \<and>
   np_linalg_norm example_numpy [Finite 3, Finite 4] = Finite 5 \<and>
   cosine_similarity example_numpy [Finite 0, Finite 0] [Finite 3, Finite 4] = Inr (Finite 0) \<and>
   cosine_similarity example_numpy [Finite 3, Finite 4] [Finite 0, Finite 0] = Inr (Finite 0)"
proof -
  have dot: "np_dot_kernel example_numpy [Finite 3, Finite 4] [Finite 3, Finite 4] = Finite 25"
    by (simp add: example_dot_kernel sequential_dot_def coarse_round_small)
  have norm: "np_linalg_norm example_numpy [Finite 3, Finite 4] = Finite 5"
    by (simp add: example_norm sequential_dot_def coarse_round_small sqrt_25)
  have zero: "np_linalg_norm example_numpy [Finite 0, Finite 0] = Finite 0"
    by (simp add: example_norm sequential_dot_def)
  have prod: "np_round example_numpy (5 * 5) = Finite 25"
    by (simp add: example_round coarse_round_small)
  have quot: "np_round example_numpy (25 / 25) = Finite 1"
    by (simp add: example_round coarse_round_1)
  show ?thesis
    using cosine_self_near_one_zero_guarded [of example_numpy "[Finite 3, Finite 4]" 25 5 25 1
        "1 / 2 ^ 53" "[Finite 0, Finite 0]" "[Finite 3, Finite 4]" 5]
      dot norm zero prod quot
    by (simp add: sqrt_25)
qed

section \<open>Properties of the segmenter\<close>

lemma chunk_loop_indices:
  "chunk_loop filename pg ss (chunks, cur, idx) = (chunks', cur', idx') \<Longrightarrow>
   map c_chunk_index chunks = map (\<lambda>i. Some (int i)) [0..<idx] \<Longrightarrow>
   map c_chunk_index chunks' = map (\<lambda>i. Some (int i)) [0..<idx']"
proof (induction ss arbitrary: chunks cur idx)
  case Nil
  then show ?case by simp
next
  case (Cons s ss)
  then show ?case
    by (auto simp: Let_def mk_chunk_def split: if_splits)
qed

text \<open>
  Claim C9. For every input text, the positional indices of the chunks of one
  segmentation call are 0, 1, 2, ... in emission order: they start at 0, increase
  strictly and leave no gap.
\<close>

theorem chunk_indices_sequential:
  "map c_chunk_index (chunk_document cfg text filename) =
     map (\<lambda>i. Some (int i)) [0..<length (chunk_document cfg text filename)]"
proof -
  obtain pg sentences where ts: "text_sentences text = (pg, sentences)"
    by (cases "text_sentences text")
  obtain chunks cur idx where lp: "chunk_loop filename pg sentences ([], [], 0) = (chunks, cur, idx)"
    by (cases "chunk_loop filename pg sentences ([], [], 0)")
  have idxs: "map c_chunk_index chunks = map (\<lambda>i. Some (int i)) [0..<idx]"
    using chunk_loop_indices [OF lp] by simp
  then have len: "length chunks = idx"
    by (metis length_map length_upt minus_nat.diff_0)
  have final: "map c_chunk_index (chunk_document cfg text filename) =
      map (\<lambda>i. Some (int i)) [0..<length (chunk_document cfg text filename)]"
    using idxs len by (simp add: chunk_document_def ts lp mk_chunk_def)
  show ?thesis by (rule final)
qed

section \<open>Properties of the search\<close>

lemma score_chunks_results:
  "\<exists>new. score_chunks np q th document chunks results = Inr (results @ new) \<and>
     (\<forall>r\<in>set new. fge (sr_similarity r) th \<and> sr_document r = document \<and>
        sr_chunk r \<in> set chunks \<and>
        (\<exists>e. c_embedding (sr_chunk r) = Some e \<and> e \<noteq> []))"
proof (induction chunks arbitrary: results)
  case Nil
  then show ?case by simp
next
  case (Cons c cs)
  show ?case
  proof (cases "c_embedding c")
    case None
    then show ?thesis using Cons.IH [of results] by auto
  next
    case (Some e)
    show ?thesis
    proof (cases "e = []")
      case True
      then show ?thesis using Some Cons.IH [of results] by auto
    next
      case False
      obtain s where s: "cosine_similarity np q e = Inr s"
        using cosine_similarity_total by blast
      show ?thesis
      proof (cases "fge s th")
        case True
        let ?r = "\<lparr> sr_chunk = c, sr_document = document,
                     sr_similarity = s, sr_relevance_score = s \<rparr>"
        obtain new where new:
          "score_chunks np q th document cs (results @ [?r]) = Inr ((results @ [?r]) @ new)"
          "\<forall>r\<in>set new. fge (sr_similarity r) th \<and> sr_document r = document \<and>
             sr_chunk r \<in> set cs \<and> (\<exists>e. c_embedding (sr_chunk r) = Some e \<and> e \<noteq> [])"
          using Cons.IH [of "results @ [?r]"] by blast
        have "score_chunks np q th document (c # cs) results = Inr (results @ (?r # new))"
          using Some False s True new(1) by simp
        moreover have "\<forall>r\<in>set (?r # new). fge (sr_similarity r) th \<and> sr_document r = document \<and>
             sr_chunk r \<in> set (c # cs) \<and> (\<exists>e. c_embedding (sr_chunk r) = Some e \<and> e \<noteq> [])"
          using new(2) True Some False by auto
        ultimately show ?thesis by blast
      next
        case nope: False
        then show ?thesis using Some False s Cons.IH [of results] by auto
      qed
    qed
  qed
qed

lemma scan_documents_results:
  "\<exists>new. scan_documents np q th ids documents entries results = Inr (results @ new) \<and>
     (\<forall>r\<in>set new. fge (sr_similarity r) th \<and>
        (\<exists>e. c_embedding (sr_chunk r) = Some e \<and> e \<noteq> []) \<and>
        (\<exists>k cs. (k, cs) \<in> set entries \<and> sr_chunk r \<in> set cs \<and>
           map_of documents k = Some (sr_document r)))"
proof (induction entries arbitrary: results)
  case Nil
  then show ?case by simp
next
  case (Cons p ps)
  obtain k cs where p: "p = (k, cs)" by (cases p)
  let ?skip = "(case ids of None \<Rightarrow> False | Some l \<Rightarrow> l \<noteq> [] \<and> k \<notin> set l)"
  show ?case
  proof (cases "?skip \<or> map_of documents k = None")
    case True
    then have "scan_documents np q th ids documents (p # ps) results =
        scan_documents np q th ids documents ps results"
      using p by auto
    then show ?thesis using Cons.IH [of results] by fastforce
  next
    case False
    then obtain d where d: "map_of documents k = Some d" and ns: "\<not> ?skip" by auto
    obtain new1 where new1:
      "score_chunks np q th d cs results = Inr (results @ new1)"
      "\<forall>r\<in>set new1. fge (sr_similarity r) th \<and> sr_document r = d \<and>
         sr_chunk r \<in> set cs \<and> (\<exists>e. c_embedding (sr_chunk r) = Some e \<and> e \<noteq> [])"
      using score_chunks_results [of np q th d cs results] by blast
    obtain new2 where new2:
      "scan_documents np q th ids documents ps (results @ new1) = Inr ((results @ new1) @ new2)"
      "\<forall>r\<in>set new2. fge (sr_similarity r) th \<and>
        (\<exists>e. c_embedding (sr_chunk r) = Some e \<and> e \<noteq> []) \<and>
        (\<exists>k cs. (k, cs) \<in> set ps \<and> sr_chunk r \<in> set cs \<and>
           map_of documents k = Some (sr_document r))"
      using Cons.IH [of "results @ new1"] by blast
    have "scan_documents np q th ids documents (p # ps) results = Inr (results @ (new1 @ new2))"
      using p d ns new1(1) new2(1) by simp
    moreover have "\<forall>r\<in>set (new1 @ new2). fge (sr_similarity r) th \<and>
        (\<exists>e. c_embedding (sr_chunk r) = Some e \<and> e \<noteq> []) \<and>
        (\<exists>k cs. (k, cs) \<in> set (p # ps) \<and> sr_chunk r \<in> set cs \<and>
           map_of documents k = Some (sr_document r))"
    proof
      fix r assume "r \<in> set (new1 @ new2)"
      then consider "r \<in> set new1" | "r \<in> set new2" by auto
      then show "fge (sr_similarity r) th \<and>
        (\<exists>e. c_embedding (sr_chunk r) = Some e \<and> e \<noteq> []) \<and>
        (\<exists>k cs. (k, cs) \<in> set (p # ps) \<and> sr_chunk r \<in> set cs \<and>
           map_of documents k = Some (sr_document r))"
      proof cases
        case 1
        then show ?thesis using new1(2) d p by auto
      next
        case 2
        then show ?thesis using new2(2) by fastforce
      qed
    qed
    ultimately show ?thesis by blast
  qed
qed

lemma sort_by_similarity_set: "set (sort_by_similarity rs) = set rs"
  by (simp add: sort_by_similarity_def)

lemma fge_not_NaN: "fge a b \<Longrightarrow> a \<noteq> NaN"
  by (cases a) auto

lemma descending_key_fge:
  "a \<noteq> NaN \<Longrightarrow> b \<noteq> NaN \<Longrightarrow> descending_key a \<le> descending_key b \<longleftrightarrow> fge a b"
  by (cases a; cases b) (auto simp: descending_key_def)

lemma sort_by_similarity_sorted:
  assumes "\<forall>r\<in>set rs. sr_similarity r \<noteq> NaN"
  shows "sorted_wrt fge (map sr_similarity (sort_by_similarity rs))"
proof -
  have "sorted (map (\<lambda>r. descending_key (sr_similarity r)) (sort_by_similarity rs))"
    unfolding sort_by_similarity_def by (rule sorted_sort_key)
  then have "sorted_wrt (\<lambda>x y. descending_key (sr_similarity x) \<le> descending_key (sr_similarity y))
      (sort_by_similarity rs)"
    by (simp add: sorted_wrt_map)
  then have "sorted_wrt (\<lambda>x y. fge (sr_similarity x) (sr_similarity y)) (sort_by_similarity rs)"
  proof (rule sorted_wrt_mono_rel [rotated])
    fix x y
    assume "x \<in> set (sort_by_similarity rs)" "y \<in> set (sort_by_similarity rs)"
      and le: "descending_key (sr_similarity x) \<le> descending_key (sr_similarity y)"
    then have "sr_similarity x \<noteq> NaN" "sr_similarity y \<noteq> NaN"
      using assms by (simp_all add: sort_by_similarity_set)
    then show "fge (sr_similarity x) (sr_similarity y)"
      using le by (simp add: descending_key_fge)
  qed
  then show ?thesis by (simp add: sorted_wrt_map)
qed

lemma py_take_length: "0 \<le> limit \<Longrightarrow> int (length (py_take limit xs)) \<le> limit"
  by (simp add: py_take_def slice_bound_def)

lemma py_take_set: "set (py_take limit xs) \<subseteq> set xs"
  by (simp add: py_take_def set_take_subset)

lemma py_take_sorted:
  "sorted_wrt P (map f xs) \<Longrightarrow> sorted_wrt P (map f (py_take limit xs))"
  unfolding py_take_def take_map [symmetric] by (rule sorted_wrt_take)

text \<open>What a successful search returns, in terms of the scan.\<close>

lemma search_documents_success:
  assumes "generate_embedding query = Inr q"
  shows "\<exists>found. scan_documents np q (threshold_in_effect threshold st) document_ids
            (rag_documents st) (chunks_by_document st) [] = Inr found \<and>
          search_documents np generate_embedding query limit threshold document_ids st =
            Inr (py_take limit (sort_by_similarity found))"
proof -
  obtain found where "scan_documents np q (threshold_in_effect threshold st) document_ids
            (rag_documents st) (chunks_by_document st) [] = Inr found"
    using scan_documents_results [of np q _ document_ids "rag_documents st" "chunks_by_document st" "[]"]
    by auto
  then show ?thesis using assms
    by (simp add: search_documents_def search_try_def)
qed

lemma search_documents_failure:
  "generate_embedding query = Inl e \<Longrightarrow>
   search_documents np generate_embedding query limit threshold document_ids st =
     Inl (SearchError (''Search failed: '' @ str_of_error e))"
  by (simp add: search_documents_def search_try_def)

lemma search_documents_result_props:
  assumes "search_documents np generate_embedding query limit threshold document_ids st = Inr results"
  shows "(\<forall>r\<in>set results. fge (sr_similarity r) (threshold_in_effect threshold st) \<and>
            (\<exists>e. c_embedding (sr_chunk r) = Some e \<and> e \<noteq> []) \<and>
            (\<exists>k cs. (k, cs) \<in> set (chunks_by_document st) \<and> sr_chunk r \<in> set cs \<and>
               map_of (rag_documents st) k = Some (sr_document r))) \<and>
         sorted_wrt fge (map sr_similarity results) \<and>
         (0 \<le> limit \<longrightarrow> int (length results) \<le> limit)"
proof -
  obtain q where q: "generate_embedding query = Inr q"
    using assms by (cases "generate_embedding query") (simp_all add: search_documents_failure)
  let ?th = "threshold_in_effect threshold st"
  obtain found where found:
    "scan_documents np q ?th document_ids (rag_documents st) (chunks_by_document st) [] = Inr found"
    "search_documents np generate_embedding query limit threshold document_ids st =
       Inr (py_take limit (sort_by_similarity found))"
    using search_documents_success [of generate_embedding query q np threshold st document_ids limit] q
    by blast
  have res: "results = py_take limit (sort_by_similarity found)"
    using assms found(2) by simp
  have props: "\<forall>r\<in>set found. fge (sr_similarity r) ?th \<and>
        (\<exists>e. c_embedding (sr_chunk r) = Some e \<and> e \<noteq> []) \<and>
        (\<exists>k cs. (k, cs) \<in> set (chunks_by_document st) \<and> sr_chunk r \<in> set cs \<and>
           map_of (rag_documents st) k = Some (sr_document r))"
    using scan_documents_results [of np q ?th document_ids "rag_documents st" "chunks_by_document st" "[]"]
      found(1) by auto
  have sub: "set results \<subseteq> set found"
    using py_take_set [of limit "sort_by_similarity found"]
    by (simp add: res sort_by_similarity_set)
  have "\<forall>r\<in>set found. sr_similarity r \<noteq> NaN"
    using props fge_not_NaN by blast
  then have "sorted_wrt fge (map sr_similarity results)"
    unfolding res by (intro py_take_sorted sort_by_similarity_sorted)
  moreover have "0 \<le> limit \<longrightarrow> int (length results) \<le> limit"
    unfolding res using py_take_length by blast
  ultimately show ?thesis using props sub by blast
qed

section \<open>Evaluating the example runs\<close>

lemmas run_simps =
  process_document_def chunk_document_def text_sentences_def py_split_sep_def
  py_startswith_def py_strip_def is_space_def mk_chunk_def py_split_def
  add_document_to_corpus_def enrich_metadata_def dict_update_all_def
  document_type_of_def py_lower_def lower_char_def upper_chars_def lower_chars_def
  title_of_def default_settings_def Let_def
  empty_state_def valid_upload_def unit_embedder_def failing_embedder_def
  cat_text_def dog_text_def

lemma one_doc_state_eq:
  "one_doc_state =
     \<lparr> ds_documents = [(''doc-1'', cat_document)],
       rag_documents = [(''doc-1'', cat_document)],
       chunks_by_document = [(''doc-1'', [cat_chunk])],
       settings = default_settings \<rparr>"
  by (simp add: one_doc_state_def cat_document_def cat_chunk_def run_simps)

lemma two_docs_state_eq:
  "two_docs_state =
     \<lparr> ds_documents = [(''doc-1'', cat_document), (''doc-2'', dog_document)],
       rag_documents = [(''doc-1'', cat_document), (''doc-2'', dog_document)],
       chunks_by_document = [(''doc-1'', [cat_chunk]), (''doc-2'', [dog_chunk])],
       settings = default_settings \<rparr>"
  unfolding two_docs_state_def one_doc_state_eq
  by (simp add: cat_document_def cat_chunk_def dog_document_def dog_chunk_def run_simps)

lemma chunk_embeddings:
  "c_embedding cat_chunk = Some [Finite 1, Finite 0]"
  "c_embedding dog_chunk = Some [Finite 1, Finite 0]"
  by (simp_all add: cat_chunk_def dog_chunk_def)

lemma search_two_docs:
  "search_documents example_numpy unit_embedder q limit (Some (Finite (1 / 2))) None
     two_docs_state =
     Inr (py_take limit [hit cat_chunk cat_document, hit dog_chunk dog_document])"
  by (simp add: search_documents_def search_try_def two_docs_state_eq unit_embedder_def
      threshold_in_effect_def chunk_embeddings cosine_unit sort_by_similarity_def hit_def
      descending_key_def)

lemma search_two_docs_default:
  "search_documents example_numpy unit_embedder q limit None None two_docs_state =
     Inr (py_take limit [hit cat_chunk cat_document, hit dog_chunk dog_document])"
  by (simp add: search_documents_def search_try_def two_docs_state_eq unit_embedder_def
      threshold_in_effect_def default_settings_def chunk_embeddings cosine_unit
      sort_by_similarity_def hit_def descending_key_def)

text \<open>
  Claim C1. The limit is a count that every caller validates to be at least 1; the
  bound is proved for every limit that is not negative. For every query, every such
  limit and every threshold, a search that returns has at most \<open>limit\<close> results, each
  with similarity at least the threshold in effect (the caller's, or the configured
  one when none is supplied, by default the binary64 value written \<^verbatim>\<open>0.4\<close>), in
  non-increasing order of similarity.
\<close>

theorem search_bounded_filtered_sorted:
  assumes "search_documents np generate_embedding query limit threshold document_ids st =
      Inr results"
    and "0 \<le> limit"
  shows "int (length results) \<le> limit \<and>
         (\<forall>r\<in>set results. fge (sr_similarity r) (threshold_in_effect threshold st)) \<and>
         sorted_wrt fge (map sr_similarity results) \<and>
         threshold_in_effect (Some t) st = t \<and>
         threshold_in_effect None st = similarity_threshold (settings st) \<and>
         similarity_threshold default_settings = Finite (3602879701896397 / 2 ^ 53) \<and>
         \<bar>3602879701896397 / 2 ^ 53 - 4 / 10\<bar> < (1 / 10 ^ 16 :: real)"
  using search_documents_result_props [OF assms(1)] assms(2)
  by (simp add: threshold_in_effect_def default_settings_def)

theorem search_bounded_filtered_sorted_witness:
  "search_documents example_numpy unit_embedder ''cat'' 1 None None two_docs_state =
     Inr [hit cat_chunk cat_document] \<and>
   (0 :: int) \<le> 1 \<and>
   int (length [hit cat_chunk cat_document]) \<le> 1 \<and>
   list_all (\<lambda>r. fge (sr_similarity r) (threshold_in_effect None two_docs_state))
     [hit cat_chunk cat_document] \<and>
   sorted_wrt fge (map sr_similarity [hit cat_chunk cat_document]) \<and>
   threshold_in_effect None two_docs_state = Finite (3602879701896397 / 2 ^ 53)"
proof -
  have run: "search_documents example_numpy unit_embedder ''cat'' 1 None None two_docs_state =
      Inr [hit cat_chunk cat_document]"
    by (simp add: search_two_docs_default py_take_def slice_bound_def)
  have cfg: "settings two_docs_state = default_settings"
    by (simp add: two_docs_state_eq)
  show ?thesis
    using search_bounded_filtered_sorted [OF run, where t = "Finite 0"] run cfg
    by (auto simp: list_all_iff)
qed

section \<open>Properties of ingestion, deletion and the answer pipeline\<close>

lemma enrich_chunks_contents:
  "map c_content (enrich_chunks generate_embedding cfg document chunks) =
     filter (\<lambda>t. \<not> isl (generate_embedding t)) (map c_content chunks)"
  by (induction chunks) (auto split: sum.splits)

lemma enrich_chunks_embedded:
  "c \<in> set (enrich_chunks generate_embedding cfg document chunks) \<Longrightarrow>
   \<exists>v. c_embedding c = Some v \<and> generate_embedding (c_content c) = Inr v"
  by (induction chunks) (auto split: sum.splits)

lemma enrich_chunks_all_fail:
  "\<forall>c\<in>set chunks. isl (generate_embedding (c_content c)) \<Longrightarrow>
   enrich_chunks generate_embedding cfg document chunks = []"
  by (induction chunks) (auto split: sum.splits)

lemma map_of_update_same: "map_of (AList.update k v al) k = Some v"
  by (simp add: update_conv')

lemma add_document_to_corpus_state:
  "add_document_to_corpus generate_embedding document chunks st =
     (True, st\<lparr> rag_documents := AList.update (d_id document) document (rag_documents st),
               chunks_by_document :=
                 AList.update (d_id document)
                   (enrich_chunks generate_embedding (settings st) document chunks)
                   (chunks_by_document st) \<rparr>)"
  by (simp add: add_document_to_corpus_def Let_def)

lemma valid_chunks_empty_iff:
  "valid_chunks cs = [] \<longleftrightarrow>
     (\<forall>c\<in>set cs. c_content c = [] \<or> length (py_strip (c_content c)) < 10)"
  by (induction cs) auto

lemma process_document_no_chunks:
  assumes "v_is_valid validation"
    and "extract (document_type_of filename) = Inr text_content"
    and "valid_chunks (chunk_document (settings st) text_content filename) = []"
  shows "process_document generate_embedding validation extract doc_id now1 now2 filename st =
     (Inl (DocumentProcessingError ''No valid chunks generated from document''), st)"
  using assms by (simp add: process_document_def Let_def)

lemma process_document_success:
  assumes "v_is_valid validation"
    and "extract (document_type_of filename) = Inr text_content"
    and "valid_chunks (chunk_document (settings st) text_content filename) = chunks"
    and "chunks \<noteq> []"
  shows "process_document generate_embedding validation extract doc_id now1 now2 filename st =
     (let document = \<lparr> d_id = doc_id, d_filename = filename, d_title = title_of filename,
                       d_content = text_content, d_type = document_type_of filename,
                       d_size = v_size validation, d_uploaded_at = now1,
                       d_processed_at = None, d_chunk_count = 0,
                       d_status = ''processing'' \<rparr>;
          document' = document\<lparr> d_chunk_count := int (length chunks),
                                 d_processed_at := Some now2,
                                 d_status := ''completed'' \<rparr>
      in (Inr document',
          st\<lparr> rag_documents := AList.update doc_id document' (rag_documents st),
              ds_documents := AList.update doc_id document' (ds_documents st),
              chunks_by_document :=
                AList.update doc_id
                  (enrich_chunks generate_embedding (settings st) document chunks)
                  (chunks_by_document st) \<rparr>))"
  using assms
  by (simp add: process_document_def add_document_to_corpus_state Let_def)

lemma scan_documents_skip_empty:
  "scan_documents np q th ids documents ((k, []) # rest) results =
     scan_documents np q th ids documents rest results"
  by (simp split: option.splits)

lemma scan_documents_update_empty:
  "distinct (map fst entries) \<Longrightarrow>
   scan_documents np q th ids documents (AList.update k [] entries) results =
     scan_documents np q th ids documents (AList.delete k entries) results"
proof (induction entries arbitrary: results)
  case Nil
  then show ?case by (simp split: option.splits)
next
  case (Cons p ps)
  obtain k' cs where p: "p = (k', cs)" by (cases p)
  show ?case
  proof (cases "k' = k")
    case True
    then have "k \<notin> fst ` set ps" using Cons.prems p by auto
    then have del: "AList.delete k (p # ps) = ps" using True p by (simp add: delete_id)
    have upd: "AList.update k [] (p # ps) = (k, []) # ps" using True p by simp
    show ?thesis unfolding del upd by (rule scan_documents_skip_empty)
  next
    case False
    have d: "distinct (map fst ps)" using Cons.prems by simp
    have upd: "AList.update k [] (p # ps) = (k', cs) # AList.update k [] ps"
      using False p by simp
    have del: "AList.delete k (p # ps) = (k', cs) # AList.delete k ps"
      using False p by simp
    show ?thesis unfolding upd del
      by (simp add: Cons.IH [OF d] cong: option.case_cong sum.case_cong)
  qed
qed

lemma delete_update_same: "AList.delete k (AList.update k v al) = AList.delete k al"
  by (induction al) auto

lemma search_documents_cong:
  assumes cfg: "settings st = settings st'"
    and scan: "\<And>q th. scan_documents np q th ids (rag_documents st) (chunks_by_document st) [] =
            scan_documents np q th ids (rag_documents st') (chunks_by_document st') []"
  shows "search_documents np ge query limit threshold ids st =
     search_documents np ge query limit threshold ids st'"
proof -
  have th: "threshold_in_effect threshold st = threshold_in_effect threshold st'"
    unfolding threshold_in_effect_def cfg by (rule refl)
  show ?thesis
    unfolding search_documents_def search_try_def Let_def th scan by (rule refl)
qed

lemma search_ignores_empty_entry:
  assumes "distinct (map fst (chunks_by_document st))"
  shows "search_documents np ge query limit threshold ids
           (st\<lparr> chunks_by_document := AList.update k [] (chunks_by_document st) \<rparr>) =
         search_documents np ge query limit threshold ids
           (st\<lparr> chunks_by_document := AList.delete k (chunks_by_document st) \<rparr>)"
  by (rule search_documents_cong) (simp_all add: scan_documents_update_empty [OF assms])

lemma delete_document_state:
  "snd (delete_document fs_error document_id st) =
     st\<lparr> ds_documents := AList.delete document_id (ds_documents st) \<rparr>"
  by (simp add: delete_document_def Let_def split: option.splits)

lemma delete_document_keeps_search:
  "search_documents np ge query limit threshold ids (snd (delete_document fs_error document_id st)) =
     search_documents np ge query limit threshold ids st"
  by (rule search_documents_cong) (simp_all add: delete_document_state)

lemma delete_document_get:
  "get_document document_id (snd (delete_document fs_error document_id st)) = None"
  by (simp add: get_document_def delete_document_state delete_conv')

lemma py_slice_subset: "set (py_slice i j xs) \<subseteq> set xs"
  unfolding py_slice_def Let_def
  by (meson set_drop_subset set_take_subset subset_trans)

lemma list_documents_subset:
  "set (list_documents skip limit st) \<subseteq> snd ` set (ds_documents st)"
proof -
  let ?docs = "sort_key (\<lambda>x. - d_uploaded_at x) (map snd (ds_documents st))"
  have "set (py_slice skip (skip + limit) ?docs) \<subseteq> set ?docs"
    by (rule py_slice_subset)
  also have "set ?docs = snd ` set (ds_documents st)" by simp
  finally show ?thesis by (simp add: list_documents_def Let_def)
qed

lemma delete_document_list:
  "set (list_documents skip limit (snd (delete_document fs_error document_id st)))
     \<subseteq> snd ` {p \<in> set (ds_documents st). fst p \<noteq> document_id}"
proof -
  have "set (AList.delete document_id (ds_documents st)) =
      {p \<in> set (ds_documents st). fst p \<noteq> document_id}"
    by (auto simp: AList.delete_eq)
  then show ?thesis
    using list_documents_subset [of skip limit "snd (delete_document fs_error document_id st)"]
    by (simp add: delete_document_state)
qed

text \<open>
  Claim C8. When the file is accepted, its text is extracted, and every chunk of the
  segmentation has trimmed content shorter than 10 characters, \<^verbatim>\<open>process_document\<close>
  fails with the \<^verbatim>\<open>DocumentProcessingError\<close> "No valid chunks generated from
  document" and every store is exactly as before the call.
\<close>

theorem no_valid_chunks_fails_unchanged:
  assumes "v_is_valid validation"
    and "extract (document_type_of filename) = Inr text_content"
    and "\<forall>c\<in>set (chunk_document (settings st) text_content filename).
           length (py_strip (c_content c)) < 10"
  shows "process_document generate_embedding validation extract doc_id now1 now2 filename st =
     (Inl (DocumentProcessingError ''No valid chunks generated from document''), st)"
proof -
  have "valid_chunks (chunk_document (settings st) text_content filename) = []"
    using assms(3) by (simp add: valid_chunks_empty_iff)
  then show ?thesis
    using assms(1,2) by (rule process_document_no_chunks [rotated 2])
qed

lemma short_text_chunks:
  "map c_content (chunk_document default_settings short_text ''hi.txt'') = [''Hi.'']"
  by (simp add: short_text_def run_simps)

theorem no_valid_chunks_fails_unchanged_witness:
  "v_is_valid valid_upload \<and>
   map c_content (chunk_document (settings one_doc_state) short_text ''hi.txt'') = [''Hi.''] \<and>
   length (py_strip ''Hi.'') < 10 \<and>
   process_document unit_embedder valid_upload (\<lambda>t. Inr short_text) ''doc-9'' 9 10 ''hi.txt''
       one_doc_state =
     (Inl (DocumentProcessingError ''No valid chunks generated from document''), one_doc_state)"
proof -
  have cfg: "settings one_doc_state = default_settings"
    by (simp add: one_doc_state_eq)
  have short: "length (py_strip ''Hi.'') < 10"
    by (simp add: py_strip_def is_space_def)
  have all_short: "\<forall>c\<in>set (chunk_document (settings one_doc_state) short_text ''hi.txt'').
      length (py_strip (c_content c)) < 10"
  proof
    fix c assume "c \<in> set (chunk_document (settings one_doc_state) short_text ''hi.txt'')"
    then have "c_content c \<in> set (map c_content
        (chunk_document default_settings short_text ''hi.txt''))"
      unfolding cfg by simp
    then have "c_content c = ''Hi.''" unfolding short_text_chunks by simp
    then show "length (py_strip (c_content c)) < 10" using short by simp
  qed
  have valid: "v_is_valid valid_upload" by (simp add: valid_upload_def)
  show ?thesis
    using no_valid_chunks_fails_unchanged [OF valid _ all_short,
        of "\<lambda>t. Inr short_text" unit_embedder "''doc-9''" 9 10]
      valid short short_text_chunks cfg
    by simp
qed

lemma enrich_chunks_nonempty:
  "\<forall>t. generate_embedding t \<noteq> Inr [] \<Longrightarrow>
   list_all embedded (enrich_chunks generate_embedding cfg document chunks)"
  by (induction chunks) (auto simp: embedded_def split: sum.splits)

lemma set_update_subset: "set (AList.update k v al) \<subseteq> insert (k, v) (set al)"
  by (induction al) auto

lemma store_embedded_update:
  assumes "store_embedded st" and "list_all embedded cs"
  shows "store_embedded (st\<lparr> chunks_by_document := AList.update k cs (chunks_by_document st) \<rparr>)"
  unfolding store_embedded_def
proof (intro ballI)
  fix p c
  assume p: "p \<in> set (chunks_by_document
      (st\<lparr> chunks_by_document := AList.update k cs (chunks_by_document st) \<rparr>))"
    and c: "c \<in> set (snd p)"
  from p have "p = (k, cs) \<or> p \<in> set (chunks_by_document st)"
    using set_update_subset [of k cs "chunks_by_document st"] by auto
  then show "embedded c"
  proof
    assume "p = (k, cs)"
    then show ?thesis using c assms(2) by (simp add: list_all_iff)
  next
    assume "p \<in> set (chunks_by_document st)"
    then show ?thesis using c assms(1) by (auto simp: store_embedded_def)
  qed
qed

lemma store_embedded_cong:
  "chunks_by_document st' = chunks_by_document st \<Longrightarrow> store_embedded st' = store_embedded st"
  by (simp add: store_embedded_def)

lemma add_document_to_corpus_embedded:
  assumes "\<forall>t. generate_embedding t \<noteq> Inr []" and "store_embedded st"
  shows "store_embedded (snd (add_document_to_corpus generate_embedding document chunks st))"
proof -
  let ?cs = "enrich_chunks generate_embedding (settings st) document chunks"
  have "store_embedded (st\<lparr> chunks_by_document :=
      AList.update (d_id document) ?cs (chunks_by_document st) \<rparr>)"
    using assms(2) enrich_chunks_nonempty [OF assms(1)] by (rule store_embedded_update)
  then show ?thesis
    by (simp add: add_document_to_corpus_state store_embedded_def)
qed

lemma process_document_chunk_map:
  "chunks_by_document
     (snd (process_document generate_embedding validation extract doc_id now1 now2 filename st)) =
     chunks_by_document st \<or>
   (\<exists>document chunks.
      chunks_by_document
        (snd (process_document generate_embedding validation extract doc_id now1 now2 filename st)) =
      AList.update doc_id (enrich_chunks generate_embedding (settings st) document chunks)
        (chunks_by_document st))"
proof (cases "v_is_valid validation")
  case False
  then show ?thesis by (simp add: process_document_def)
next
  case valid: True
  show ?thesis
  proof (cases "extract (document_type_of filename)")
    case (Inl e)
    then show ?thesis using valid by (simp add: process_document_def Let_def)
  next
    case (Inr text_content)
    show ?thesis
    proof (cases "valid_chunks (chunk_document (settings st) text_content filename) = []")
      case True
      then show ?thesis
        using valid Inr by (simp add: process_document_no_chunks)
    next
      case False
      show ?thesis
        using process_document_success [of validation "extract" filename text_content st
            "valid_chunks (chunk_document (settings st) text_content filename)"
            generate_embedding doc_id now1 now2] valid Inr False
        by (auto simp: Let_def)
    qed
  qed
qed

lemma process_document_embedded:
  assumes "\<forall>t. generate_embedding t \<noteq> Inr []" and "store_embedded st"
  shows "store_embedded
     (snd (process_document generate_embedding validation extract doc_id now1 now2 filename st))"
proof -
  let ?run = "process_document generate_embedding validation extract doc_id now1 now2 filename st"
  from process_document_chunk_map [of generate_embedding validation "extract" doc_id now1 now2
      filename st]
  show ?thesis
  proof
    assume "chunks_by_document (snd ?run) = chunks_by_document st"
    then show ?thesis using assms(2) by (simp add: store_embedded_def)
  next
    assume "\<exists>document chunks. chunks_by_document (snd ?run) =
        AList.update doc_id (enrich_chunks generate_embedding (settings st) document chunks)
          (chunks_by_document st)"
    then obtain document chunks where eq: "chunks_by_document (snd ?run) =
        AList.update doc_id (enrich_chunks generate_embedding (settings st) document chunks)
          (chunks_by_document st)"
      by blast
    have "store_embedded (st\<lparr> chunks_by_document :=
        AList.update doc_id (enrich_chunks generate_embedding (settings st) document chunks)
          (chunks_by_document st) \<rparr>)"
      using assms(2) enrich_chunks_nonempty [OF assms(1)] by (rule store_embedded_update)
    then show ?thesis using eq by (simp add: store_embedded_def)
  qed
qed

text \<open>
  Claim C5. The embedding provider returns a vector of the model's fixed length or
  raises; it never returns an empty vector. Then the corpus stores for a document
  exactly the enriched chunks, from which every chunk whose embedding generation
  raised has been dropped, and each of them carries a non-empty embedding. The store
  starts with every chunk embedded and stays so under ingestion and deletion. Search
  skips a chunk without embedding whatever the store holds, so no
  \<^verbatim>\<open>SearchResult\<close> carries one.
\<close>

theorem chunks_without_embedding_not_stored:
  assumes "\<forall>t. generate_embedding t \<noteq> Inr []"
  shows "map_of (chunks_by_document
                  (snd (add_document_to_corpus generate_embedding document chunks st)))
             (d_id document) =
           Some (enrich_chunks generate_embedding (settings st) document chunks) \<and>
         map c_content (enrich_chunks generate_embedding cfg document chunks) =
           filter (\<lambda>t. \<not> isl (generate_embedding t)) (map c_content chunks) \<and>
         list_all embedded (enrich_chunks generate_embedding cfg document chunks) \<and>
         store_embedded empty_state \<and>
         (store_embedded st \<longrightarrow>
            store_embedded (snd (add_document_to_corpus generate_embedding document chunks st)) \<and>
            store_embedded
              (snd (process_document generate_embedding validation extract doc_id now1 now2
                      filename st)) \<and>
            store_embedded (snd (delete_document fs_error document_id st))) \<and>
         (search_documents np provider query limit threshold document_ids st' = Inr results \<longrightarrow>
            list_all (\<lambda>r. embedded (sr_chunk r)) results)"
proof (intro conjI impI)
  show "map_of (chunks_by_document
                  (snd (add_document_to_corpus generate_embedding document chunks st)))
             (d_id document) =
           Some (enrich_chunks generate_embedding (settings st) document chunks)"
    by (simp add: add_document_to_corpus_state map_of_update_same)
  show "map c_content (enrich_chunks generate_embedding cfg document chunks) =
           filter (\<lambda>t. \<not> isl (generate_embedding t)) (map c_content chunks)"
    by (rule enrich_chunks_contents)
  show "list_all embedded (enrich_chunks generate_embedding cfg document chunks)"
    using assms by (rule enrich_chunks_nonempty)
  show "store_embedded empty_state"
    by (simp add: store_embedded_def empty_state_def)
next
  assume inv: "store_embedded st"
  show "store_embedded (snd (add_document_to_corpus generate_embedding document chunks st))"
    using assms inv by (rule add_document_to_corpus_embedded)
  show "store_embedded
      (snd (process_document generate_embedding validation extract doc_id now1 now2 filename st))"
    using assms inv by (rule process_document_embedded)
  show "store_embedded (snd (delete_document fs_error document_id st))"
    using inv by (simp add: delete_document_state store_embedded_def)
next
  assume "search_documents np provider query limit threshold document_ids st' = Inr results"
  from search_documents_result_props [OF this]
  show "list_all (\<lambda>r. embedded (sr_chunk r)) results"
    by (simp add: list_all_iff embedded_def)
qed

lemma draft_contents: "c_content cat_draft = cat_text" "c_content dog_draft = dog_text"
  by (simp_all add: cat_draft_def dog_draft_def mk_chunk_def py_strip_def is_space_def
      cat_text_def dog_text_def)

theorem chunks_without_embedding_not_stored_witness:
  "(\<forall>t. picky_embedder t \<noteq> Inr []) \<and>
   map c_content (enrich_chunks picky_embedder default_settings cat_document
       [cat_draft, dog_draft]) = [cat_text] \<and>
   list_all embedded (enrich_chunks picky_embedder default_settings cat_document
       [cat_draft, dog_draft]) \<and>
   store_embedded one_doc_state \<and>
   store_embedded (snd (add_document_to_corpus picky_embedder dog_document
       [cat_draft, dog_draft] one_doc_state)) \<and>
   search_documents example_numpy unit_embedder ''cat'' 5 None None two_docs_state =
     Inr [hit cat_chunk cat_document, hit dog_chunk dog_document] \<and>
   list_all (\<lambda>r. embedded (sr_chunk r))
     [hit cat_chunk cat_document, hit dog_chunk dog_document]"
proof -
  have contract: "\<forall>t. picky_embedder t \<noteq> Inr []"
    by (simp add: picky_embedder_def)
  have run: "search_documents example_numpy unit_embedder ''cat'' 5 None None two_docs_state =
      Inr [hit cat_chunk cat_document, hit dog_chunk dog_document]"
    by (simp add: search_two_docs_default py_take_def slice_bound_def)
  have picky: "\<not> isl (picky_embedder cat_text)" "isl (picky_embedder dog_text)"
    by (simp_all add: picky_embedder_def cat_text_def dog_text_def)
  have inv: "store_embedded one_doc_state"
    by (simp add: store_embedded_def one_doc_state_eq embedded_def chunk_embeddings)
  show ?thesis
    using chunks_without_embedding_not_stored [OF contract,
        of dog_document "[cat_draft, dog_draft]" one_doc_state default_settings _ _ _ _ _ _ _ _
           example_numpy unit_embedder "''cat''" 5 None None two_docs_state
           "[hit cat_chunk cat_document, hit dog_chunk dog_document]"]
      chunks_without_embedding_not_stored [OF contract,
        of cat_document "[cat_draft, dog_draft]" one_doc_state default_settings]
      contract run picky inv
    by (simp add: draft_contents)
qed

lemma list_documents_all:
  "set (list_documents 0 (int (length (ds_documents st))) st) = snd ` set (ds_documents st)"
proof -
  let ?docs = "sort_key (\<lambda>x. - d_uploaded_at x) (map snd (ds_documents st))"
  have "py_slice 0 (0 + int (length (ds_documents st))) ?docs = ?docs"
    by (simp add: py_slice_def slice_bound_def)
  then show ?thesis by (simp add: list_documents_def Let_def)
qed

lemma update_entry_in_set: "(k, v) \<in> set (AList.update k v al)"
  by (induction al) auto

text \<open>
  Claim C10. The chunk map is a dictionary, so no key occurs twice in it. If embedding
  generation fails for every chunk, \<^verbatim>\<open>add_document_to_corpus\<close>
  returns \<^verbatim>\<open>True\<close>, the corpus maps the document's id to the document and to an
  empty chunk list, and every search returns what it would return without that entry.
  \<^verbatim>\<open>process_document\<close> raises nothing: it returns the document with status
  \<^verbatim>\<open>completed\<close> and the count of the chunks it handed over, and the document is
  found by \<^verbatim>\<open>get_document\<close> and \<^verbatim>\<open>list_documents\<close>.
\<close>

theorem all_embeddings_fail_document_registered:
  assumes fail: "\<forall>c\<in>set chunks. isl (generate_embedding (c_content c))"
    and keys: "distinct (map fst (chunks_by_document st))"
  shows "(\<exists>st'. add_document_to_corpus generate_embedding document chunks st = (True, st') \<and>
            map_of (rag_documents st') (d_id document) = Some document \<and>
            map_of (chunks_by_document st') (d_id document) = Some [] \<and>
            (\<forall>np provider query limit threshold ids.
               search_documents np provider query limit threshold ids st' =
               search_documents np provider query limit threshold ids
                 (st'\<lparr> chunks_by_document :=
                         AList.delete (d_id document) (chunks_by_document st') \<rparr>))) \<and>
         (v_is_valid validation \<and> extract (document_type_of filename) = Inr text_content \<and>
          valid_chunks (chunk_document (settings st) text_content filename) = chunks \<and>
          chunks \<noteq> [] \<longrightarrow>
          (\<exists>doc st'. process_document generate_embedding validation extract doc_id now1 now2
                        filename st = (Inr doc, st') \<and>
             d_id doc = doc_id \<and> d_status doc = ''completed'' \<and>
             d_chunk_count doc = int (length chunks) \<and>
             get_document doc_id st' = Some doc \<and>
             doc \<in> set (list_documents 0 (int (length (ds_documents st'))) st') \<and>
             map_of (rag_documents st') doc_id = Some doc \<and>
             map_of (chunks_by_document st') doc_id = Some [] \<and>
             (\<forall>np provider query limit threshold ids.
                search_documents np provider query limit threshold ids st' =
                search_documents np provider query limit threshold ids
                  (st'\<lparr> chunks_by_document := AList.delete doc_id (chunks_by_document st') \<rparr>))))"
proof (intro conjI impI)
  let ?st' = "st\<lparr> rag_documents := AList.update (d_id document) document (rag_documents st),
               chunks_by_document := AList.update (d_id document) [] (chunks_by_document st) \<rparr>"
  have run: "add_document_to_corpus generate_embedding document chunks st = (True, ?st')"
    by (simp add: add_document_to_corpus_state enrich_chunks_all_fail [OF fail])
  have same: "\<And>np provider query limit threshold ids.
      search_documents np provider query limit threshold ids ?st' =
      search_documents np provider query limit threshold ids
        (?st'\<lparr> chunks_by_document := AList.delete (d_id document) (chunks_by_document ?st') \<rparr>)"
  proof -
    fix np provider query limit threshold ids
    let ?base = "st\<lparr> rag_documents := AList.update (d_id document) document (rag_documents st) \<rparr>"
    have d: "distinct (map fst (chunks_by_document ?base))" using keys by simp
    show "search_documents np provider query limit threshold ids ?st' =
      search_documents np provider query limit threshold ids
        (?st'\<lparr> chunks_by_document := AList.delete (d_id document) (chunks_by_document ?st') \<rparr>)"
      using search_ignores_empty_entry [OF d, of np provider query limit threshold ids "d_id document"]
      by (simp add: delete_update_same)
  qed
  show "\<exists>st'. add_document_to_corpus generate_embedding document chunks st = (True, st') \<and>
            map_of (rag_documents st') (d_id document) = Some document \<and>
            map_of (chunks_by_document st') (d_id document) = Some [] \<and>
            (\<forall>np provider query limit threshold ids.
               search_documents np provider query limit threshold ids st' =
               search_documents np provider query limit threshold ids
                 (st'\<lparr> chunks_by_document :=
                         AList.delete (d_id document) (chunks_by_document st') \<rparr>))"
    using run same by (intro exI [of _ ?st']) (simp add: map_of_update_same)
next
  assume a: "v_is_valid validation \<and> extract (document_type_of filename) = Inr text_content \<and>
          valid_chunks (chunk_document (settings st) text_content filename) = chunks \<and>
          chunks \<noteq> []"
  let ?doc = "\<lparr> d_id = doc_id, d_filename = filename, d_title = title_of filename,
                d_content = text_content, d_type = document_type_of filename,
                d_size = v_size validation, d_uploaded_at = now1,
                d_processed_at = Some now2, d_chunk_count = int (length chunks),
                d_status = ''completed'' \<rparr>"
  let ?st' = "st\<lparr> rag_documents := AList.update doc_id ?doc (rag_documents st),
               ds_documents := AList.update doc_id ?doc (ds_documents st),
               chunks_by_document := AList.update doc_id [] (chunks_by_document st) \<rparr>"
  have run: "process_document generate_embedding validation extract doc_id now1 now2 filename st =
      (Inr ?doc, ?st')"
    using a process_document_success [of validation "extract" filename text_content st chunks
        generate_embedding doc_id now1 now2]
    by (simp add: enrich_chunks_all_fail [OF fail] Let_def)
  have same: "\<And>np provider query limit threshold ids.
      search_documents np provider query limit threshold ids ?st' =
      search_documents np provider query limit threshold ids
        (?st'\<lparr> chunks_by_document := AList.delete doc_id (chunks_by_document ?st') \<rparr>)"
  proof -
    fix np provider query limit threshold ids
    let ?base = "st\<lparr> rag_documents := AList.update doc_id ?doc (rag_documents st),
               ds_documents := AList.update doc_id ?doc (ds_documents st) \<rparr>"
    have d: "distinct (map fst (chunks_by_document ?base))" using keys by simp
    show "search_documents np provider query limit threshold ids ?st' =
      search_documents np provider query limit threshold ids
        (?st'\<lparr> chunks_by_document := AList.delete doc_id (chunks_by_document ?st') \<rparr>)"
      using search_ignores_empty_entry [OF d, of np provider query limit threshold ids doc_id]
      by (simp add: delete_update_same)
  qed
  have listed: "?doc \<in> set (list_documents 0 (int (length (ds_documents ?st'))) ?st')"
    unfolding list_documents_all using update_entry_in_set [of doc_id ?doc "ds_documents st"]
    by (simp add: image_iff) (metis snd_conv)
  show "\<exists>doc st'. process_document generate_embedding validation extract doc_id now1 now2
                        filename st = (Inr doc, st') \<and>
             d_id doc = doc_id \<and> d_status doc = ''completed'' \<and>
             d_chunk_count doc = int (length chunks) \<and>
             get_document doc_id st' = Some doc \<and>
             doc \<in> set (list_documents 0 (int (length (ds_documents st'))) st') \<and>
             map_of (rag_documents st') doc_id = Some doc \<and>
             map_of (chunks_by_document st') doc_id = Some [] \<and>
             (\<forall>np provider query limit threshold ids.
                search_documents np provider query limit threshold ids st' =
                search_documents np provider query limit threshold ids
                  (st'\<lparr> chunks_by_document := AList.delete doc_id (chunks_by_document st') \<rparr>))"
    using run same listed
    by (intro exI [of _ ?doc] exI [of _ ?st']) (simp add: map_of_update_same get_document_def)
qed

lemma dog_valid_chunks:
  "valid_chunks (chunk_document default_settings dog_text ''dog.txt'') = [dog_draft]"
  by (simp add: dog_draft_def run_simps)

lemma failing_run:
  "process_document failing_embedder valid_upload (\<lambda>t. Inr dog_text) ''doc-2'' 7 8 ''dog.txt''
     one_doc_state =
   (Inr dog_document,
    \<lparr> ds_documents = [(''doc-1'', cat_document), (''doc-2'', dog_document)],
      rag_documents = [(''doc-1'', cat_document), (''doc-2'', dog_document)],
      chunks_by_document = [(''doc-1'', [cat_chunk]), (''doc-2'', [])],
      settings = default_settings \<rparr>)"
  unfolding one_doc_state_eq
  by (simp add: dog_document_def run_simps)

theorem all_embeddings_fail_document_registered_witness:
  "list_all (\<lambda>c. isl (failing_embedder (c_content c))) [dog_draft] \<and>
   distinct (map fst (chunks_by_document one_doc_state)) \<and>
   v_is_valid valid_upload \<and>
   valid_chunks (chunk_document (settings one_doc_state) dog_text ''dog.txt'') = [dog_draft] \<and>
   fst (add_document_to_corpus failing_embedder dog_document [dog_draft] one_doc_state) = True \<and>
   map_of (chunks_by_document
             (snd (add_document_to_corpus failing_embedder dog_document [dog_draft] one_doc_state)))
       ''doc-2'' = Some [] \<and>
   fst (process_document failing_embedder valid_upload (\<lambda>t. Inr dog_text) ''doc-2'' 7 8
          ''dog.txt'' one_doc_state) = Inr dog_document \<and>
   d_status dog_document = ''completed'' \<and>
   get_document ''doc-2''
     (snd (process_document failing_embedder valid_upload (\<lambda>t. Inr dog_text) ''doc-2'' 7 8
             ''dog.txt'' one_doc_state)) = Some dog_document \<and>
   search_documents example_numpy unit_embedder ''dog'' 5 None None
     (snd (process_document failing_embedder valid_upload (\<lambda>t. Inr dog_text) ''doc-2'' 7 8
             ''dog.txt'' one_doc_state)) = Inr [hit cat_chunk cat_document]"
proof -
  have fail: "\<forall>c\<in>set [dog_draft]. isl (failing_embedder (c_content c))"
    by (simp add: failing_embedder_def)
  have keys: "distinct (map fst (chunks_by_document one_doc_state))"
    by (simp add: one_doc_state_eq)
  have cfg: "settings one_doc_state = default_settings"
    by (simp add: one_doc_state_eq)
  have valid: "v_is_valid valid_upload" by (simp add: valid_upload_def)
  have doc_id: "d_id dog_document = ''doc-2''" "d_status dog_document = ''completed''"
    by (simp_all add: dog_document_def)
  have found: "search_documents example_numpy unit_embedder ''dog'' 5 None None
     \<lparr> ds_documents = [(''doc-1'', cat_document), (''doc-2'', dog_document)],
       rag_documents = [(''doc-1'', cat_document), (''doc-2'', dog_document)],
       chunks_by_document = [(''doc-1'', [cat_chunk])],
       settings = default_settings \<rparr> = Inr [hit cat_chunk cat_document]"
    by (simp add: search_documents_def search_try_def unit_embedder_def
        threshold_in_effect_def default_settings_def chunk_embeddings cosine_unit
        sort_by_similarity_def hit_def py_take_def slice_bound_def)
  note main = all_embeddings_fail_document_registered [OF fail keys,
        of dog_document valid_upload "\<lambda>t. Inr dog_text" "''dog.txt''" dog_text "''doc-2''" 7 8]
  from main obtain st' where add:
    "add_document_to_corpus failing_embedder dog_document [dog_draft] one_doc_state = (True, st')"
    "map_of (chunks_by_document st') (d_id dog_document) = Some []"
    by blast
  let ?run = "process_document failing_embedder valid_upload (\<lambda>t. Inr dog_text) ''doc-2'' 7 8
      ''dog.txt'' one_doc_state"
  from main valid dog_valid_chunks cfg obtain doc st'' where run:
    "?run = (Inr doc, st'')" "d_status doc = ''completed''"
    "get_document ''doc-2'' st'' = Some doc"
    "search_documents example_numpy unit_embedder ''dog'' 5 None None st'' =
       search_documents example_numpy unit_embedder ''dog'' 5 None None
         (st''\<lparr> chunks_by_document := AList.delete ''doc-2'' (chunks_by_document st'') \<rparr>)"
    by auto
  have doc: "doc = dog_document"
    using run(1) failing_run by simp
  have st_eq: "st'' =
      \<lparr> ds_documents = [(''doc-1'', cat_document), (''doc-2'', dog_document)],
        rag_documents = [(''doc-1'', cat_document), (''doc-2'', dog_document)],
        chunks_by_document = [(''doc-1'', [cat_chunk]), (''doc-2'', [])],
        settings = default_settings \<rparr>"
    using run(1) failing_run by simp
  have "search_documents example_numpy unit_embedder ''dog'' 5 None None st'' =
      Inr [hit cat_chunk cat_document]"
    using run(4) found by (simp add: st_eq)
  then have "search_documents example_numpy unit_embedder ''dog'' 5 None None (snd ?run) =
      Inr [hit cat_chunk cat_document]"
    by (simp add: run(1))
  then show ?thesis
    using fail keys valid dog_valid_chunks cfg doc_id add run(1,3) doc
    by (simp add: list_all_iff)
qed

text \<open>
  Claim C2 at a concrete run: one document is ingested and then deleted. The deletion
  reports success, \<^verbatim>\<open>get_document\<close> and \<^verbatim>\<open>list_documents\<close> no longer show the
  document, but its chunk is still in \<^verbatim>\<open>chunks_by_document\<close> and a search still
  returns it.
\<close>

theorem deleted_document_still_found_by_search:
  "delete_document None ''doc-1'' one_doc_state =
     (True, one_doc_state\<lparr> ds_documents := [] \<rparr>) \<and>
   get_document ''doc-1'' (one_doc_state\<lparr> ds_documents := [] \<rparr>) = None \<and>
   list_documents 0 10 (one_doc_state\<lparr> ds_documents := [] \<rparr>) = [] \<and>
   chunks_by_document (one_doc_state\<lparr> ds_documents := [] \<rparr>) = [(''doc-1'', [cat_chunk])] \<and>
   search_documents example_numpy unit_embedder ''cat'' 5 None None (one_doc_state\<lparr> ds_documents := [] \<rparr>) =
     Inr [hit cat_chunk cat_document]"
  unfolding one_doc_state_eq
  by (simp add: delete_document_def get_document_def list_documents_def py_slice_def
      slice_bound_def search_documents_def search_try_def unit_embedder_def
      threshold_in_effect_def default_settings_def chunk_embeddings cosine_unit
      sort_by_similarity_def hit_def py_take_def)







section \<open>Sentences, groups and the length of chunks\<close>

lemma py_strip_clean: "py_strip s \<noteq> [] \<Longrightarrow> clean (py_strip s)"
proof -
  assume ne: "py_strip s \<noteq> []"
  let ?a = "dropWhile is_space s"
  let ?b = "dropWhile is_space (rev ?a)"
  have b_ne: "?b \<noteq> []" using ne by (simp add: py_strip_def)
  then have a_ne: "?a \<noteq> []" by (metis dropWhile.simps(1) rev.simps(1))
  have last_ok: "\<not> is_space (last (rev ?b))"
    using b_ne by (simp add: last_rev hd_dropWhile)
  have first: "\<not> is_space (hd ?a)" using a_ne by (simp add: hd_dropWhile)
  obtain pre where pre: "rev ?a = pre @ ?b"
    by (metis takeWhile_dropWhile_id)
  then have "?a = rev ?b @ rev pre" by (metis rev_append rev_rev_ident)
  then have "hd (rev ?b) = hd ?a" using b_ne by (metis hd_append2 rev_is_Nil_conv)
  then have "\<not> is_space (hd (rev ?b))" using first by simp
  then show ?thesis using b_ne last_ok by (simp add: clean_def py_strip_def)
qed

lemma clean_strip: "clean s \<Longrightarrow> py_strip s = s"
proof -
  assume c: "clean s"
  then have "dropWhile is_space s = s"
    by (cases s) (simp_all add: clean_def)
  moreover have "dropWhile is_space (rev s) = rev s"
    using c by (cases "rev s") (simp_all add: clean_def hd_rev)
  ultimately show ?thesis by (simp add: py_strip_def)
qed

lemma clean_strip_space: "clean s \<Longrightarrow> py_strip (s @ '' '') = s"
proof -
  assume c: "clean s"
  then have a: "dropWhile is_space (s @ '' '') = s @ '' ''"
    by (cases s) (simp_all add: clean_def)
  have sp: "is_space CHR '' ''" by (simp add: is_space_def)
  have "dropWhile is_space (rev s) = rev s"
    using c by (cases "rev s") (simp_all add: clean_def hd_rev)
  then have "dropWhile is_space (rev (s @ '' '')) = rev s" using sp by simp
  then show ?thesis using a by (simp add: py_strip_def)
qed

lemma clean_append: "clean a \<Longrightarrow> clean b \<Longrightarrow> clean (a @ m @ b)"
  by (simp add: clean_def)

lemma py_join_clean:
  "g \<noteq> [] \<Longrightarrow> \<forall>s\<in>set g. clean s \<Longrightarrow> clean (py_join sep g)"
proof (induction sep g rule: py_join.induct)
  case (1 sep)
  then show ?case by simp
next
  case (2 sep x)
  then show ?case by simp
next
  case (3 sep x y ys)
  then show ?case using clean_append [of x "py_join sep (y # ys)" sep] by simp
qed

lemma concat_spaced:
  "g \<noteq> [] \<Longrightarrow> concat (map (\<lambda>s. s @ sep) g) = py_join sep g @ sep"
  by (induction sep g rule: py_join.induct) simp_all

lemma line_sentences_clean: "\<forall>s\<in>set (line_sentences cur line). clean s"
proof (induction line arbitrary: cur)
  case Nil
  then show ?case by (simp add: py_strip_clean)
next
  case (Cons c cs)
  then show ?case by (auto simp: Let_def py_strip_clean)
qed

lemma scan_lines_clean:
  "\<forall>s\<in>set sentences. clean s \<Longrightarrow>
   \<forall>s\<in>set (snd (scan_lines current_page sentences lines)). clean s"
proof (induction lines arbitrary: current_page sentences)
  case Nil
  then show ?case by simp
next
  case (Cons l ls)
  show ?case
  proof (cases "py_startswith ''--- Page'' l")
    case True
    then show ?thesis using Cons.IH [OF Cons.prems] by simp
  next
    case False
    have h: "\<forall>s\<in>set (sentences @ line_sentences [] l). clean s"
      using Cons.prems line_sentences_clean by auto
    show ?thesis using False Cons.IH [OF h] by simp
  qed
qed

lemma text_sentences_clean: "\<forall>s\<in>set (snd (text_sentences text)). clean s"
  unfolding text_sentences_def by (rule scan_lines_clean) simp

lemma buffer_of_Nil_iff: "\<forall>s\<in>set g. clean s \<Longrightarrow> buffer_of g = [] \<longleftrightarrow> g = []"
  by (cases g) (simp_all add: buffer_of_def)

lemma buffer_of_join: "g \<noteq> [] \<Longrightarrow> buffer_of g = py_join '' '' g @ '' ''"
  unfolding buffer_of_def by (rule concat_spaced)

lemma buffer_of_snoc: "buffer_of (g @ [s]) = buffer_of g @ s @ '' ''"
  by (simp add: buffer_of_def)

lemma strip_buffer:
  "g \<noteq> [] \<Longrightarrow> \<forall>s\<in>set g. clean s \<Longrightarrow> py_strip (buffer_of g) = py_join '' '' g"
  by (simp add: buffer_of_join clean_strip_space py_join_clean)

lemma strip_buffer_Nil_iff:
  "\<forall>s\<in>set g. clean s \<Longrightarrow> py_strip (buffer_of g) = [] \<longleftrightarrow> g = []"
proof (cases "g = []")
  case True
  then show ?thesis by (simp add: buffer_of_def py_strip_def)
next
  case False
  assume c: "\<forall>s\<in>set g. clean s"
  have "clean (py_join '' '' g)" using False c by (rule py_join_clean)
  then show ?thesis using False c by (simp add: strip_buffer clean_def)
qed

lemma closed_group_ok:
  assumes "g \<noteq> []" and "\<forall>s\<in>set g. clean s"
    and "length g \<le> 1 \<or> length (buffer_of g) \<le> 4001"
  shows "length g = 1 \<or> length (py_join '' '' g) \<le> 4000"
proof -
  have "length (buffer_of g) = length (py_join '' '' g) + 1"
    using assms(1) by (simp add: buffer_of_join)
  moreover have "length g \<le> 1 \<Longrightarrow> length g = 1"
    using assms(1) by (cases g) simp_all
  ultimately show ?thesis using assms(3) by auto
qed

lemma well_grouped_snoc:
  "well_grouped groups \<Longrightarrow> g \<noteq> [] \<Longrightarrow> \<forall>s\<in>set g. clean s \<Longrightarrow>
   length g \<le> 1 \<or> length (buffer_of g) \<le> 4001 \<Longrightarrow> well_grouped (groups @ [g])"
  using closed_group_ok [of g] by (auto simp: well_grouped_def)

lemma chunk_loop_groups:
  assumes "\<forall>s\<in>set ss. clean s"
    and "map c_content chunks = map (py_join '' '') groups"
    and "well_grouped groups"
    and "\<forall>s\<in>set g. clean s"
    and "length g \<le> 1 \<or> length (buffer_of g) \<le> 4001"
  shows "\<exists>groups' g' chunks' idx'.
           chunk_loop filename pg ss (chunks, buffer_of g, idx) = (chunks', buffer_of g', idx') \<and>
           map c_content chunks' = map (py_join '' '') groups' \<and>
           well_grouped groups' \<and> (\<forall>s\<in>set g'. clean s) \<and>
           (length g' \<le> 1 \<or> length (buffer_of g') \<le> 4001) \<and>
           concat groups' @ g' = concat groups @ g @ ss"
  using assms
proof (induction ss arbitrary: chunks groups g idx)
  case Nil
  then show ?case by auto
next
  case (Cons s ss)
  have cs: "clean s" and rest: "\<forall>s\<in>set ss. clean s" using Cons.prems(1) by simp_all
  have strip: "py_strip s = s" using cs by (rule clean_strip)
  have ne: "s \<noteq> []" using cs by (simp add: clean_def)
  show ?case
  proof (cases "length (buffer_of g) + length s > 4000")
    case over: True
    show ?thesis
    proof (cases "buffer_of g = []")
      case True
      have step: "chunk_loop filename pg (s # ss) (chunks, buffer_of g, idx) =
          chunk_loop filename pg ss (chunks, buffer_of [s], idx)"
        using over True strip ne by (simp add: buffer_of_def)
      have g: "g = []" using True Cons.prems(4) by (simp add: buffer_of_Nil_iff)
      obtain groups' g' chunks' idx' where r:
        "chunk_loop filename pg ss (chunks, buffer_of [s], idx) = (chunks', buffer_of g', idx')"
        "map c_content chunks' = map (py_join '' '') groups'"
        "well_grouped groups'" "\<forall>s\<in>set g'. clean s"
        "length g' \<le> 1 \<or> length (buffer_of g') \<le> 4001"
        "concat groups' @ g' = concat groups @ [s] @ ss"
        using Cons.IH [OF rest Cons.prems(2,3), of "[s]" idx] cs by auto
      show ?thesis using step r g by auto
    next
      case False
      then have gne: "g \<noteq> []" by (auto simp: buffer_of_def)
      let ?chunks = "chunks @ [mk_chunk filename pg idx (buffer_of g)]"
      have step: "chunk_loop filename pg (s # ss) (chunks, buffer_of g, idx) =
          chunk_loop filename pg ss (?chunks, buffer_of [s], idx + 1)"
        using over False strip ne by (simp add: buffer_of_def)
      have content: "map c_content ?chunks = map (py_join '' '') (groups @ [g])"
        using Cons.prems(2) strip_buffer [OF gne Cons.prems(4)] by (simp add: mk_chunk_def)
      have wg: "well_grouped (groups @ [g])"
        using Cons.prems(3) gne Cons.prems(4,5) by (rule well_grouped_snoc)
      obtain groups' g' chunks' idx' where r:
        "chunk_loop filename pg ss (?chunks, buffer_of [s], idx + 1) =
           (chunks', buffer_of g', idx')"
        "map c_content chunks' = map (py_join '' '') groups'"
        "well_grouped groups'" "\<forall>s\<in>set g'. clean s"
        "length g' \<le> 1 \<or> length (buffer_of g') \<le> 4001"
        "concat groups' @ g' = concat (groups @ [g]) @ [s] @ ss"
        using Cons.IH [OF rest content wg, of "[s]" "idx + 1"] cs by auto
      show ?thesis using step r by auto
    qed
  next
    case under: False
    have step: "chunk_loop filename pg (s # ss) (chunks, buffer_of g, idx) =
        chunk_loop filename pg ss (chunks, buffer_of (g @ [s]), idx)"
      using under strip ne by (simp add: buffer_of_snoc)
    have cl: "\<forall>x\<in>set (g @ [s]). clean x" using Cons.prems(4) cs by simp
    have len: "length (g @ [s]) \<le> 1 \<or> length (buffer_of (g @ [s])) \<le> 4001"
      using under by (simp add: buffer_of_snoc)
    obtain groups' g' chunks' idx' where r:
      "chunk_loop filename pg ss (chunks, buffer_of (g @ [s]), idx) =
         (chunks', buffer_of g', idx')"
      "map c_content chunks' = map (py_join '' '') groups'"
      "well_grouped groups'" "\<forall>s\<in>set g'. clean s"
      "length g' \<le> 1 \<or> length (buffer_of g') \<le> 4001"
      "concat groups' @ g' = concat groups @ (g @ [s]) @ ss"
      using Cons.IH [OF rest Cons.prems(2,3) cl len, of idx] by auto
    show ?thesis using step r by auto
  qed
qed

lemmas seg_simps =
  chunk_document_def text_sentences_def py_split_sep_def py_startswith_def py_strip_def
  is_space_def mk_chunk_def py_split_def Let_def

lemma grouped_bound:
  assumes "well_grouped groups" and "g \<in> set groups"
  shows "g \<noteq> [] \<and> length (py_join '' '' g) \<le> 4000 + length (last g)"
proof -
  have ne: "g \<noteq> []" and alt: "length g = 1 \<or> length (py_join '' '' g) \<le> 4000"
    using assms by (auto simp: well_grouped_def)
  show ?thesis
  proof (cases "length g = 1")
    case True
    then obtain s where "g = [s]" by (cases g) auto
    then show ?thesis by simp
  next
    case False
    then show ?thesis using ne alt by simp
  qed
qed

text \<open>
  What the segmenter does with its literal bound: the sentences of the text fall into
  consecutive groups, one per chunk; the content of each chunk is its group's sentences
  joined by single spaces, and it is at most 4000 characters longer than the group's
  last sentence.
\<close>

lemma chunks_are_sentence_groups:
  "\<exists>groups. concat groups = snd (text_sentences text) \<and>
     map c_content (chunk_document cfg text filename) = map (py_join '' '') groups \<and>
     (\<forall>g\<in>set groups. g \<noteq> [] \<and> length (py_join '' '' g) \<le> 4000 + length (last g))"
proof -
  obtain pg sentences where ts: "text_sentences text = (pg, sentences)"
    by (cases "text_sentences text")
  have cl: "\<forall>s\<in>set sentences. clean s"
    using text_sentences_clean [of "text"] ts by simp
  have start: "buffer_of [] = []" by (simp add: buffer_of_def)
  obtain groups g chunks idx where loop:
    "chunk_loop filename pg sentences ([], buffer_of [], 0) = (chunks, buffer_of g, idx)"
    "map c_content chunks = map (py_join '' '') groups"
    "well_grouped groups" "\<forall>s\<in>set g. clean s"
    "length g \<le> 1 \<or> length (buffer_of g) \<le> 4001"
    "concat groups @ g = concat [] @ [] @ sentences"
    using chunk_loop_groups [OF cl, of "[]" "[]" "[]" filename pg 0]
    by (auto simp: well_grouped_def)
  show ?thesis
  proof (cases "g = []")
    case True
    have "chunk_document cfg text filename = chunks"
      using ts loop(1) True start by (simp add: chunk_document_def py_strip_def)
    then show ?thesis
      using loop(2,3,6) True ts grouped_bound [OF loop(3)] by (intro exI [of _ groups]) simp
  next
    case False
    have "py_strip (buffer_of g) \<noteq> []"
      using False loop(4) by (simp add: strip_buffer_Nil_iff)
    then have "chunk_document cfg text filename = chunks @ [mk_chunk filename pg idx (buffer_of g)]"
      using ts loop(1) start by (simp add: chunk_document_def)
    then have content: "map c_content (chunk_document cfg text filename) =
        map (py_join '' '') (groups @ [g])"
      using loop(2) strip_buffer [OF False loop(4)] by (simp add: mk_chunk_def)
    have wg: "well_grouped (groups @ [g])"
      using loop(3) False loop(4,5) by (rule well_grouped_snoc)
    show ?thesis
      using content loop(6) ts grouped_bound [OF wg] by (intro exI [of _ "groups @ [g]"]) simp
  qed
qed

text \<open>
  So the bound that the configuration announces holds when the configured size is the
  default one.
\<close>

lemma chunks_within_default_chunk_size:
  assumes "chunk_size cfg = 4000"
  shows "\<exists>groups. concat groups = snd (text_sentences text) \<and>
     map c_content (chunk_document cfg text filename) = map (py_join '' '') groups \<and>
     (\<forall>g\<in>set groups. g \<noteq> [] \<and>
        int (length (py_join '' '' g)) \<le> chunk_size cfg + int (length (last g)))"
proof -
  obtain groups where g: "concat groups = snd (text_sentences text)"
    "map c_content (chunk_document cfg text filename) = map (py_join '' '') groups"
    "\<forall>g\<in>set groups. g \<noteq> [] \<and> length (py_join '' '' g) \<le> 4000 + length (last g)"
    using chunks_are_sentence_groups by blast
  have "\<forall>g\<in>set groups. g \<noteq> [] \<and>
      int (length (py_join '' '' g)) \<le> chunk_size cfg + int (length (last g))"
    using g(3) assms by auto
  then show ?thesis using g(1,2) by blast
qed

text \<open>
  Claim C7 at a concrete run. The configured maximum chunk length is 10. The text has
  two sentences of 23 characters; the segmenter puts both into one chunk of 47
  characters, which is longer than the configured maximum plus the trailing sentence:
  the comparison in \<^verbatim>\<open>chunk_document\<close> is against the literal 4000 and
  \<^verbatim>\<open>chunk_size\<close> is never read.
\<close>

theorem configured_chunk_size_not_honoured:
  "chunk_size small_settings = 10 \<and>
   snd (text_sentences greek_text) = [''Alpha beta gamma delta.'', ''Epsilon zeta eta theta.''] \<and>
   map c_content (chunk_document small_settings greek_text ''greek.txt'') =
     [''Alpha beta gamma delta. Epsilon zeta eta theta.''] \<and>
   \<not> int (length ''Alpha beta gamma delta. Epsilon zeta eta theta.'')
       \<le> chunk_size small_settings + int (length ''Epsilon zeta eta theta.'')"
  by (simp add: small_settings_def default_settings_def greek_text_def seg_simps)

end
